theory Spec2Isabelle
  imports Complex_Main
begin

text \<open>
  The repository holds two implementations of the triangle mesh: the Three.js model
  (\<open>js/Triangle.js\<close> and \<open>js/TriangleManager.js\<close>) and the WebGL model (\<open>js/app.js\<close>).
  Both are embedded here: the constants of the Three.js manager carry the prefix \<open>TM_\<close>
  where the two share a name, the fields of the WebGL triangle the prefix \<open>tri_\<close>.
\<close>

section \<open>JavaScript numbers\<close>

text \<open>
  A JavaScript number is modelled as an exact real or one of the three special values of
  IEEE arithmetic.  Rounding and the sign of zero are abstracted away: a finite result of
  \<open>+\<close>, \<open>-\<close>, \<open>*\<close> and \<open>/\<close> is the exact real result, and a zero divisor counts as \<open>+0\<close>
  (every variable divisor in the program is a \<open>Math.sqrt\<close> result, hence never \<open>-0\<close>).
  Division by zero is kept as the code has it: \<open>0 / 0\<close> is \<open>NaN\<close> and \<open>a / 0\<close> is an
  infinity.  The range of a double is kept where a mesh grown from the seed reaches its end,
  in the squared edge lengths of the WebGL model (\<open>js_range\<close> and \<open>js_norm2\<close> below): inner
  triangles shrink without bound, so the square of a coordinate difference underflows to 0.
\<close>

datatype jsnum = Fin real | PInf | NInf | NaN

instantiation jsnum :: "{plus, minus, uminus, times, inverse, abs, ord}"
begin

fun uminus_jsnum :: "jsnum \<Rightarrow> jsnum" where
  "uminus_jsnum (Fin a) = Fin (- a)"
| "uminus_jsnum PInf = NInf"
| "uminus_jsnum NInf = PInf"
| "uminus_jsnum NaN = NaN"

fun plus_jsnum :: "jsnum \<Rightarrow> jsnum \<Rightarrow> jsnum" where
  "plus_jsnum NaN _ = NaN"
| "plus_jsnum _ NaN = NaN"
| "plus_jsnum PInf NInf = NaN"
| "plus_jsnum NInf PInf = NaN"
| "plus_jsnum PInf _ = PInf"
| "plus_jsnum _ PInf = PInf"
| "plus_jsnum NInf _ = NInf"
| "plus_jsnum _ NInf = NInf"
| "plus_jsnum (Fin a) (Fin b) = Fin (a + b)"

definition minus_jsnum :: "jsnum \<Rightarrow> jsnum \<Rightarrow> jsnum" where
  "minus_jsnum a b = a + (- b)"

fun times_jsnum :: "jsnum \<Rightarrow> jsnum \<Rightarrow> jsnum" where
  "times_jsnum NaN _ = NaN"
| "times_jsnum _ NaN = NaN"
| "times_jsnum (Fin a) (Fin b) = Fin (a * b)"
| "times_jsnum (Fin a) PInf = (if a = 0 then NaN else if 0 < a then PInf else NInf)"
| "times_jsnum (Fin a) NInf = (if a = 0 then NaN else if 0 < a then NInf else PInf)"
| "times_jsnum PInf (Fin b) = (if b = 0 then NaN else if 0 < b then PInf else NInf)"
| "times_jsnum NInf (Fin b) = (if b = 0 then NaN else if 0 < b then NInf else PInf)"
| "times_jsnum PInf PInf = PInf"
| "times_jsnum PInf NInf = NInf"
| "times_jsnum NInf PInf = NInf"
| "times_jsnum NInf NInf = PInf"

fun divide_jsnum :: "jsnum \<Rightarrow> jsnum \<Rightarrow> jsnum" where
  "divide_jsnum NaN _ = NaN"
| "divide_jsnum _ NaN = NaN"
| "divide_jsnum (Fin a) (Fin b) =
     (if b = 0 then (if a = 0 then NaN else if 0 < a then PInf else NInf) else Fin (a / b))"
| "divide_jsnum (Fin a) PInf = Fin 0"
| "divide_jsnum (Fin a) NInf = Fin 0"
| "divide_jsnum PInf (Fin b) = (if 0 \<le> b then PInf else NInf)"
| "divide_jsnum NInf (Fin b) = (if 0 \<le> b then NInf else PInf)"
| "divide_jsnum PInf PInf = NaN"
| "divide_jsnum PInf NInf = NaN"
| "divide_jsnum NInf PInf = NaN"
| "divide_jsnum NInf NInf = NaN"

definition inverse_jsnum :: "jsnum \<Rightarrow> jsnum" where
  "inverse_jsnum a = divide (Fin 1) a"

fun abs_jsnum :: "jsnum \<Rightarrow> jsnum" where
  "abs_jsnum (Fin a) = Fin \<bar>a\<bar>"
| "abs_jsnum PInf = PInf"
| "abs_jsnum NInf = PInf"
| "abs_jsnum NaN = NaN"

fun less_jsnum :: "jsnum \<Rightarrow> jsnum \<Rightarrow> bool" where
  "less_jsnum NaN _ = False"
| "less_jsnum _ NaN = False"
| "less_jsnum (Fin a) (Fin b) = (a < b)"
| "less_jsnum (Fin a) PInf = True"
| "less_jsnum (Fin a) NInf = False"
| "less_jsnum PInf _ = False"
| "less_jsnum NInf (Fin b) = True"
| "less_jsnum NInf PInf = True"
| "less_jsnum NInf NInf = False"

fun less_eq_jsnum :: "jsnum \<Rightarrow> jsnum \<Rightarrow> bool" where
  "less_eq_jsnum NaN _ = False"
| "less_eq_jsnum _ NaN = False"
| "less_eq_jsnum (Fin a) (Fin b) = (a \<le> b)"
| "less_eq_jsnum (Fin a) PInf = True"
| "less_eq_jsnum (Fin a) NInf = False"
| "less_eq_jsnum PInf PInf = True"
| "less_eq_jsnum PInf _ = False"
| "less_eq_jsnum NInf _ = True"

instance ..

end

text \<open>\<open>Math.sqrt\<close>: \<open>NaN\<close> on a negative argument.\<close>

fun Math_sqrt :: "jsnum \<Rightarrow> jsnum" where
  "Math_sqrt (Fin a) = (if a < 0 then NaN else Fin (sqrt a))"
| "Math_sqrt PInf = PInf"
| "Math_sqrt NInf = NaN"
| "Math_sqrt NaN = NaN"

text \<open>\<open>a || b\<close> on numbers: \<open>0\<close> and \<open>NaN\<close> are the falsy numbers.\<close>

definition js_or :: "jsnum \<Rightarrow> jsnum \<Rightarrow> jsnum" where
  "js_or a b = (if a = Fin 0 \<or> a = NaN then b else a)"

definition is_finite :: "jsnum \<Rightarrow> bool" where
  "is_finite a = (case a of Fin _ \<Rightarrow> True | _ \<Rightarrow> False)"

text \<open>
  The range of a double, applied to an exactly computed result: a magnitude from
  \<open>2^1024 - 2^970\<close> on (half a unit in the last place above the largest double) rounds to
  an infinity, a magnitude up to \<open>2^-1075\<close> (half the smallest positive double) rounds to 0.
\<close>

definition js_range :: "jsnum \<Rightarrow> jsnum" where
  "js_range a =
    (case a of
       Fin r \<Rightarrow>
         if 2 ^ 1024 - 2 ^ 970 \<le> \<bar>r\<bar> then (if 0 < r then PInf else NInf)
         else if \<bar>r\<bar> \<le> 1 / 2 ^ 1075 then Fin 0
         else Fin r
     | _ \<Rightarrow> a)"

text \<open>
  \<open>Math.sqrt(a * a + b * b)\<close> and \<open>Math.sqrt(a**2 + b**2)\<close>: the two squares and their sum
  within the range of a double.  The result is 0 when both squares underflow and an infinity
  when a square or the sum overflows.
\<close>

definition js_norm2 :: "jsnum \<Rightarrow> jsnum \<Rightarrow> jsnum" where
  "js_norm2 a b = Math_sqrt (js_range (js_range (a * a) + js_range (b * b)))"

text \<open>Edge (side) indices: the input layers only ever produce 0, 1 and 2.\<close>

datatype side = S0 | S1 | S2

text \<open>\<open>(side + 1) % 3\<close>\<close>

fun next_side :: "side \<Rightarrow> side" where
  "next_side S0 = S1"
| "next_side S1 = S2"
| "next_side S2 = S0"

definition all_sides :: "side list" where
  "all_sides = [S0, S1, S2]"

text \<open>
  Object references: every triangle object lives in the \<open>triangles\<close> array of its
  implementation, in creation order, and is never removed; a reference is its position there.
\<close>

type_synonym ref = nat

section \<open>The Three.js model: \<open>js/Triangle.js\<close>\<close>

text \<open>\<open>THREE.Vector3\<close> with the methods the model uses, as the library defines them.\<close>

datatype Vector3 = Vector3 (vx: jsnum) (vy: jsnum) (vz: jsnum)

definition subVectors :: "Vector3 \<Rightarrow> Vector3 \<Rightarrow> Vector3" where
  "subVectors a b = Vector3 (vx a - vx b) (vy a - vy b) (vz a - vz b)"

definition addVectors :: "Vector3 \<Rightarrow> Vector3 \<Rightarrow> Vector3" where
  "addVectors a b = Vector3 (vx a + vx b) (vy a + vy b) (vz a + vz b)"

definition multiplyScalar :: "Vector3 \<Rightarrow> jsnum \<Rightarrow> Vector3" where
  "multiplyScalar v s = Vector3 (vx v * s) (vy v * s) (vz v * s)"

definition divideScalar :: "Vector3 \<Rightarrow> jsnum \<Rightarrow> Vector3" where
  "divideScalar v s = multiplyScalar v (Fin 1 / s)"

definition length3 :: "Vector3 \<Rightarrow> jsnum" where
  "length3 v = Math_sqrt (vx v * vx v + vy v * vy v + vz v * vz v)"

text \<open>\<open>normalize()\<close> is \<open>divideScalar(this.length() || 1)\<close>: the zero vector stays zero.\<close>

definition normalize :: "Vector3 \<Rightarrow> Vector3" where
  "normalize v = divideScalar v (js_or (length3 v) (Fin 1))"

type_synonym vertices3 = "Vector3 \<times> Vector3 \<times> Vector3"

fun vertex :: "vertices3 \<Rightarrow> side \<Rightarrow> Vector3" where
  "vertex (v0, v1, v2) S0 = v0"
| "vertex (v0, v1, v2) S1 = v1"
| "vertex (v0, v1, v2) S2 = v2"

record Triangle =
  vertices :: vertices3
  parent :: "ref option"
  parent_side :: "side option"
  children :: "side \<Rightarrow> ref option"
  innerTriangles :: "side \<Rightarrow> ref option"
  outerTriangles :: "side \<Rightarrow> ref option"
  neighbors :: "side \<Rightarrow> ref option"
  selected :: bool
  focused :: bool
  center :: Vector3

definition makeEquilateral :: "vertices3 \<Rightarrow> vertices3" where
  "makeEquilateral verts =
    (let v0 = vertex verts S0;
         v1 = vertex verts S1;
         v0v1 = subVectors v1 v0;
         sideLength = length3 v0v1;
         perpendicular = normalize (Vector3 (- vy v0v1) (vx v0v1) (Fin 0));
         height = sideLength * Fin (sqrt 3) / Fin 2;
         scaled = multiplyScalar perpendicular height;
         midpoint = multiplyScalar (addVectors v0 v1) (Fin (1/2));
         v2 = addVectors midpoint scaled
     in (v0, v1, v2))"

text \<open>The constructor; the Three.js mesh, materials and debug points only feed the renderer.\<close>

definition Triangle_new :: "vertices3 \<Rightarrow> ref option \<Rightarrow> side option \<Rightarrow> Triangle" where
  "Triangle_new verts par sd =
    (let vs = makeEquilateral verts;
         v0 = vertex vs S0; v1 = vertex vs S1; v2 = vertex vs S2
     in \<lparr> vertices = vs, parent = par, parent_side = sd,
          children = (\<lambda>_. None), innerTriangles = (\<lambda>_. None),
          outerTriangles = (\<lambda>_. None), neighbors = (\<lambda>_. None),
          selected = False, focused = False,
          center = Vector3 ((vx v0 + vx v1 + vx v2) / Fin 3)
                           ((vy v0 + vy v1 + vy v2) / Fin 3)
                           ((vz v0 + vz v1 + vz v2) / Fin 3) \<rparr>)"

definition getAdjacentTriangleVertices :: "Triangle \<Rightarrow> side \<Rightarrow> vertices3" where
  "getAdjacentTriangleVertices t sd =
    (let origVertex0 = vertex (vertices t) S0;
         origVertex1 = vertex (vertices t) S1;
         origVertex2 = vertex (vertices t) S2;
         (sharedVertex1, sharedVertex2, oppositeVertex) =
            (if sd = S0 then (origVertex0, origVertex1, origVertex2)
             else if sd = S1 then (origVertex1, origVertex2, origVertex0)
             else (origVertex2, origVertex0, origVertex1));
         midpoint = multiplyScalar (addVectors sharedVertex1 sharedVertex2) (Fin (1/2));
         toMidpoint = subVectors midpoint oppositeVertex;
         newVertex = addVectors oppositeVertex (multiplyScalar toMidpoint (Fin 2))
     in (sharedVertex1, sharedVertex2, newVertex))"

definition getInnerTriangleVertices :: "Triangle \<Rightarrow> side \<Rightarrow> vertices3" where
  "getInnerTriangleVertices t sd =
    (let v1 = vertex (vertices t) sd;
         centerPoint = center t;
         v2 = vertex (vertices t) (next_side sd)
     in (v1, centerPoint, v2))"

definition getOuterTriangleVertices :: "Triangle \<Rightarrow> side \<Rightarrow> vertices3" where
  "getOuterTriangleVertices t sd =
    (let v1 = vertex (vertices t) sd;
         v2 = vertex (vertices t) (next_side sd);
         midpoint = multiplyScalar (addVectors v1 v2) (Fin (1/2));
         centerToMid = subVectors midpoint (center t);
         sideLength = length3 (subVectors v2 v1);
         scaleFactor = (sideLength * Fin (sqrt 3) / Fin 2) / length3 centerToMid;
         newVertex = addVectors midpoint (multiplyScalar centerToMid scaleFactor)
     in (v1, v2, newVertex))"

section \<open>The Three.js model: \<open>js/TriangleManager.js\<close>\<close>

record TriangleManager =
  triangles :: "Triangle list"
  focusedTriangle :: "ref option"
  selectedTriangles :: "ref list"

text \<open>Field update of the object behind a reference.\<close>

definition update_at :: "ref \<Rightarrow> (Triangle \<Rightarrow> Triangle) \<Rightarrow> TriangleManager \<Rightarrow> TriangleManager" where
  "update_at r f m =
    (if r < length (triangles m) then m\<lparr>triangles := (triangles m)[r := f (triangles m ! r)]\<rparr>
     else m)"

definition setFocus :: "ref \<Rightarrow> bool \<Rightarrow> TriangleManager \<Rightarrow> TriangleManager" where
  "setFocus r b m = update_at r (\<lambda>t. t\<lparr>focused := b\<rparr>) m"

definition setFocusedTriangle :: "TriangleManager \<Rightarrow> ref option \<Rightarrow> TriangleManager" where
  "setFocusedTriangle m triangle =
    (let m1 = (case focusedTriangle m of Some f \<Rightarrow> setFocus f False m | None \<Rightarrow> m);
         m2 = m1\<lparr>focusedTriangle := triangle\<rparr>
     in case triangle of Some t \<Rightarrow> setFocus t True m2 | None \<Rightarrow> m2)"

definition TM_addTriangle :: "TriangleManager \<Rightarrow> Triangle \<Rightarrow> TriangleManager \<times> ref" where
  "TM_addTriangle m triangle = (m\<lparr>triangles := triangles m @ [triangle]\<rparr>, length (triangles m))"

definition verticesEqual :: "Vector3 \<Rightarrow> Vector3 \<Rightarrow> jsnum \<Rightarrow> bool" where
  "verticesEqual v1 v2 epsilon =
    (\<bar>vx v1 - vx v2\<bar> < epsilon \<and> \<bar>vy v1 - vy v2\<bar> < epsilon \<and> \<bar>vz v1 - vz v2\<bar> < epsilon)"

definition default_epsilon :: jsnum where
  "default_epsilon = Fin (1 / 10000)"

definition sharedCount :: "Triangle \<Rightarrow> Triangle \<Rightarrow> side \<Rightarrow> nat" where
  "sharedCount triangle1 triangle2 sd =
    (let v1 = vertex (vertices triangle1) sd;
         v2 = vertex (vertices triangle1) (next_side sd)
     in length (filter (\<lambda>j. let v = vertex (vertices triangle2) j
                            in verticesEqual v v1 default_epsilon \<or> verticesEqual v v2 default_epsilon)
                       all_sides))"

definition findAdjacentSide :: "Triangle \<Rightarrow> Triangle \<Rightarrow> side option" where
  "findAdjacentSide triangle1 triangle2 =
    find (\<lambda>sd. sharedCount triangle1 triangle2 sd = 2) all_sides"

definition TM_createInitialTriangle :: "TriangleManager \<Rightarrow> TriangleManager" where
  "TM_createInitialTriangle m =
    (let size = Fin (3/2);
         height = size * Fin (sqrt 3) / Fin 2;
         verts = (Vector3 (- size / Fin 2) (- height / Fin 3) (Fin 0),
                  Vector3 (size / Fin 2) (- height / Fin 3) (Fin 0),
                  Vector3 (Fin 0) (height * Fin 2 / Fin 3) (Fin 0));
         (m1, triangle) = TM_addTriangle m (Triangle_new verts None None)
     in setFocusedTriangle m1 (Some triangle))"

definition TriangleManager_new :: TriangleManager where
  "TriangleManager_new =
    TM_createInitialTriangle \<lparr> triangles = [], focusedTriangle = None, selectedTriangles = [] \<rparr>"

text \<open>
  The creation methods return \<open>None\<close> where the JavaScript throws a \<open>TypeError\<close>: when the
  argument is not a triangle of the store.
\<close>

definition TM_createAdjacentTriangle ::
    "TriangleManager \<Rightarrow> ref \<Rightarrow> side \<Rightarrow> (TriangleManager \<times> ref) option" where
  "TM_createAdjacentTriangle m triangle sd =
    (if \<not> triangle < length (triangles m) then None
     else case neighbors (triangles m ! triangle) sd of
       Some existingTriangle \<Rightarrow>
         Some (setFocusedTriangle m (Some existingTriangle), existingTriangle)
     | None \<Rightarrow>
         (let verts = getAdjacentTriangleVertices (triangles m ! triangle) sd;
              (m1, newTriangle) = TM_addTriangle m (Triangle_new verts (Some triangle) (Some sd));
              m2 = update_at triangle (\<lambda>t. t\<lparr>neighbors := (neighbors t)(sd \<mapsto> newTriangle)\<rparr>) m1;
              m3 = (case findAdjacentSide (triangles m2 ! newTriangle) (triangles m2 ! triangle) of
                      Some newSide \<Rightarrow>
                        update_at newTriangle
                          (\<lambda>t. t\<lparr>neighbors := (neighbors t)(newSide \<mapsto> triangle)\<rparr>) m2
                    | None \<Rightarrow> m2)
          in Some (setFocusedTriangle m3 (Some newTriangle), newTriangle)))"

definition TM_createInnerTriangle ::
    "TriangleManager \<Rightarrow> ref \<Rightarrow> side \<Rightarrow> (TriangleManager \<times> ref) option" where
  "TM_createInnerTriangle m triangle sd =
    (if \<not> triangle < length (triangles m) then None
     else case innerTriangles (triangles m ! triangle) sd of
       Some existingTriangle \<Rightarrow>
         Some (setFocusedTriangle m (Some existingTriangle), existingTriangle)
     | None \<Rightarrow>
         (let verts = getInnerTriangleVertices (triangles m ! triangle) sd;
              (m1, newTriangle) = TM_addTriangle m (Triangle_new verts (Some triangle) (Some sd));
              m2 = update_at triangle
                     (\<lambda>t. t\<lparr>innerTriangles := (innerTriangles t)(sd \<mapsto> newTriangle)\<rparr>) m1
          in Some (setFocusedTriangle m2 (Some newTriangle), newTriangle)))"

definition TM_createOuterTriangle ::
    "TriangleManager \<Rightarrow> ref \<Rightarrow> side \<Rightarrow> (TriangleManager \<times> ref) option" where
  "TM_createOuterTriangle m triangle sd =
    (if \<not> triangle < length (triangles m) then None
     else case outerTriangles (triangles m ! triangle) sd of
       Some existingTriangle \<Rightarrow>
         Some (setFocusedTriangle m (Some existingTriangle), existingTriangle)
     | None \<Rightarrow>
         (let verts = getOuterTriangleVertices (triangles m ! triangle) sd;
              (m1, newTriangle) = TM_addTriangle m (Triangle_new verts (Some triangle) (Some sd));
              m2 = update_at triangle
                     (\<lambda>t. t\<lparr>outerTriangles := (outerTriangles t)(sd \<mapsto> newTriangle)\<rparr>) m1
          in Some (setFocusedTriangle m2 (Some newTriangle), newTriangle)))"

text \<open>\<open>moveToAdjacentTriangle(side)\<close> navigates from the focused triangle; \<open>None\<close> is \<open>null\<close>.\<close>

definition moveToAdjacentTriangle :: "TriangleManager \<Rightarrow> side \<Rightarrow> TriangleManager \<times> ref option" where
  "moveToAdjacentTriangle m sd =
    (case focusedTriangle m of
       None \<Rightarrow> (m, None)
     | Some f \<Rightarrow>
         (case neighbors (triangles m ! f) sd of
            Some neighbor \<Rightarrow> (setFocusedTriangle m (Some neighbor), Some neighbor)
          | None \<Rightarrow> (m, None)))"

section \<open>The WebGL model: \<open>js/app.js\<close>\<close>

text \<open>
  The module-level variables of \<open>app.js\<close> form the state.  The \<open>Float32Array\<close> instance
  buffers, the colour of a triangle and the console output only feed the renderer and are
  left out.
\<close>

definition MAX_TRIANGLES :: nat where
  "MAX_TRIANGLES = 10000"

definition TRIANGLE_SIZE :: jsnum where
  "TRIANGLE_SIZE = Fin (3/10)"

text \<open>The flat vertex array \<open>[x1,y1, x2,y2, x3,y3]\<close>.\<close>

type_synonym vertices6 = "jsnum \<times> jsnum \<times> jsnum \<times> jsnum \<times> jsnum \<times> jsnum"

text \<open>The class \<open>Triangle\<close> of \<open>app.js\<close>; a \<open>parentSide\<close> of \<open>-1\<close> is \<open>None\<close>.\<close>

record GLTriangle =
  tri_id :: nat
  tri_vertices :: vertices6
  tri_parent :: "ref option"
  tri_parentSide :: "side option"
  tri_children :: "side \<Rightarrow> ref option"
  tri_neighbors :: "side \<Rightarrow> ref option"
  tri_innerTriangles :: "side \<Rightarrow> ref option"
  tri_outerTriangles :: "side \<Rightarrow> ref option"
  tri_center :: "jsnum \<times> jsnum"
  tri_selected :: bool
  tri_focused :: bool

definition GLTriangle_new :: "nat \<Rightarrow> vertices6 \<Rightarrow> ref option \<Rightarrow> side option \<Rightarrow> GLTriangle" where
  "GLTriangle_new i verts par parSide =
    (case verts of (x1, y1, x2, y2, x3, y3) \<Rightarrow>
      \<lparr> tri_id = i, tri_vertices = verts, tri_parent = par, tri_parentSide = parSide,
        tri_children = (\<lambda>_. None), tri_neighbors = (\<lambda>_. None),
        tri_innerTriangles = (\<lambda>_. None), tri_outerTriangles = (\<lambda>_. None),
        tri_center = ((x1 + x2 + x3) / Fin 3, (y1 + y2 + y3) / Fin 3),
        tri_selected = False, tri_focused = False \<rparr>)"

definition getSide :: "GLTriangle \<Rightarrow> side \<Rightarrow> jsnum \<times> jsnum \<times> jsnum \<times> jsnum" where
  "getSide t index =
    (case tri_vertices t of (x1, y1, x2, y2, x3, y3) \<Rightarrow>
      if index = S0 then (x1, y1, x2, y2)
      else if index = S1 then (x2, y2, x3, y3)
      else (x3, y3, x1, y1))"

record app_state =
  gl_triangles :: "GLTriangle list"
  selectedTriangleIndex :: int
  focusedTriangleIndex :: int
  triangleCount :: nat
  nextTriangleId :: nat
  dataChanged :: bool

definition app_initial :: app_state where
  "app_initial = \<lparr> gl_triangles = [], selectedTriangleIndex = - 1, focusedTriangleIndex = - 1,
                    triangleCount = 0, nextTriangleId = 0, dataChanged = True \<rparr>"

definition gl_update_at :: "ref \<Rightarrow> (GLTriangle \<Rightarrow> GLTriangle) \<Rightarrow> app_state \<Rightarrow> app_state" where
  "gl_update_at r f s =
    (if r < length (gl_triangles s)
     then s\<lparr>gl_triangles := (gl_triangles s)[r := f (gl_triangles s ! r)]\<rparr>
     else s)"

definition setNeighbor :: "ref \<Rightarrow> side \<Rightarrow> ref \<Rightarrow> app_state \<Rightarrow> app_state" where
  "setNeighbor r sd triangle s =
    gl_update_at r (\<lambda>t. t\<lparr>tri_neighbors := (tri_neighbors t)(sd \<mapsto> triangle)\<rparr>) s"

definition setChild :: "ref \<Rightarrow> side \<Rightarrow> ref \<Rightarrow> app_state \<Rightarrow> app_state" where
  "setChild r sd triangle s =
    gl_update_at r (\<lambda>t. t\<lparr>tri_children := (tri_children t)(sd \<mapsto> triangle)\<rparr>) s"

definition setInnerTriangle :: "ref \<Rightarrow> side \<Rightarrow> ref \<Rightarrow> app_state \<Rightarrow> app_state" where
  "setInnerTriangle r sd triangle s =
    gl_update_at r (\<lambda>t. t\<lparr>tri_innerTriangles := (tri_innerTriangles t)(sd \<mapsto> triangle)\<rparr>) s"

definition setOuterTriangle :: "ref \<Rightarrow> side \<Rightarrow> ref \<Rightarrow> app_state \<Rightarrow> app_state" where
  "setOuterTriangle r sd triangle s =
    gl_update_at r (\<lambda>t. t\<lparr>tri_outerTriangles := (tri_outerTriangles t)(sd \<mapsto> triangle)\<rparr>) s"

definition focusTriangle :: "app_state \<Rightarrow> int \<Rightarrow> app_state" where
  "focusTriangle s index =
    (let s1 = (if 0 \<le> focusedTriangleIndex s \<and> focusedTriangleIndex s < int (triangleCount s)
               then gl_update_at (nat (focusedTriangleIndex s)) (\<lambda>t. t\<lparr>tri_focused := False\<rparr>) s
               else s);
         s2 = s1\<lparr>focusedTriangleIndex := index\<rparr>
     in if 0 \<le> index \<and> index < int (triangleCount s2)
        then (gl_update_at (nat index) (\<lambda>t. t\<lparr>tri_focused := True\<rparr>) s2)\<lparr>dataChanged := True\<rparr>
        else s2)"

text \<open>
  \<open>selectTriangle(index)\<close> with the default \<open>clearExisting = true\<close>: the loop clears the
  flag of the first \<open>triangleCount\<close> triangles.
\<close>

definition clearSelected :: "app_state \<Rightarrow> app_state" where
  "clearSelected s =
    s\<lparr>gl_triangles :=
        map (\<lambda>t. if tri_selected t then t\<lparr>tri_selected := False\<rparr> else t)
            (take (triangleCount s) (gl_triangles s))
        @ drop (triangleCount s) (gl_triangles s)\<rparr>"

definition selectTriangle :: "app_state \<Rightarrow> int \<Rightarrow> app_state" where
  "selectTriangle s index =
    (let s1 = clearSelected s
     in if 0 \<le> index \<and> index < int (triangleCount s1)
        then (gl_update_at (nat index) (\<lambda>t. t\<lparr>tri_selected := True\<rparr>) s1)
               \<lparr>selectedTriangleIndex := index, dataChanged := True\<rparr>
        else s1)"

text \<open>\<open>addTriangle\<close> returns \<open>None\<close> for \<open>null\<close>, else the reference of the pushed triangle.\<close>

definition addTriangle ::
    "app_state \<Rightarrow> vertices6 \<Rightarrow> ref option \<Rightarrow> side option \<Rightarrow> app_state \<times> ref option" where
  "addTriangle s verts par parSide =
    (if MAX_TRIANGLES \<le> triangleCount s then (s, None)
     else
       let triangle = GLTriangle_new (nextTriangleId s) verts par parSide;
           new = length (gl_triangles s);
           s1 = s\<lparr>nextTriangleId := nextTriangleId s + 1,
                  gl_triangles := gl_triangles s @ [triangle]\<rparr>;
           s2 = (case (par, parSide) of
                   (Some p, Some ps) \<Rightarrow> setChild p ps new s1
                 | _ \<Rightarrow> s1);
           s3 = (if triangleCount s2 = 0 then focusTriangle s2 0 else s2);
           s4 = s3\<lparr>triangleCount := triangleCount s3 + 1, dataChanged := True\<rparr>
       in (s4, Some new))"

definition createInitialTriangle :: "app_state \<Rightarrow> app_state \<times> ref option" where
  "createInitialTriangle s =
    (let size = Fin (1/2) * TRIANGLE_SIZE;
         verts = (- size, - size * Fin (577/1000),
                  size, - size * Fin (577/1000),
                  Fin 0, size * Fin (1155/1000))
     in addTriangle s verts None None)"

text \<open>The two tolerance tests of the reciprocal-side search, tolerance \<open>0.001\<close>.\<close>

definition sidesMatch :: "jsnum \<times> jsnum \<times> jsnum \<times> jsnum \<Rightarrow> jsnum \<times> jsnum \<times> jsnum \<times> jsnum \<Rightarrow> bool" where
  "sidesMatch newSideVerts originalSideVerts =
    (case newSideVerts of (n1x, n1y, n2x, n2y) \<Rightarrow>
     case originalSideVerts of (o1x, o1y, o2x, o2y) \<Rightarrow>
       let tol = Fin (1/1000);
           matchForward = (\<bar>n1x - o1x\<bar> < tol \<and> \<bar>n1y - o1y\<bar> < tol \<and>
                           \<bar>n2x - o2x\<bar> < tol \<and> \<bar>n2y - o2y\<bar> < tol);
           matchReverse = (\<bar>n1x - o2x\<bar> < tol \<and> \<bar>n1y - o2y\<bar> < tol \<and>
                           \<bar>n2x - o1x\<bar> < tol \<and> \<bar>n2y - o1y\<bar> < tol)
       in matchForward \<or> matchReverse)"

text \<open>
  The vertex array that \<open>createAdjacentTriangle\<close> builds: the side, then the midpoint moved
  along the perpendicular that points away from the centre of the triangle.
\<close>

definition adjacentVertices :: "GLTriangle \<Rightarrow> side \<Rightarrow> vertices6" where
  "adjacentVertices triangle sd =
    (let (x1, y1, x2, y2) = getSide triangle sd;
         dx = x2 - x1;
         dy = y2 - y1;
         centerX = fst (tri_center triangle);
         centerY = snd (tri_center triangle);
         midX = (x1 + x2) / Fin 2;
         midY = (y1 + y2) / Fin 2;
         toCenterX = centerX - midX;
         toCenterY = centerY - midY;
         len = js_norm2 dx dy;
         perpX0 = dy / len;
         perpY0 = - dx / len;
         dotProduct = perpX0 * toCenterX + perpY0 * toCenterY;
         perpX = (if Fin 0 < dotProduct then - perpX0 else perpX0);
         perpY = (if Fin 0 < dotProduct then - perpY0 else perpY0);
         height = len * Fin (sqrt 3) / Fin 2;
         x3 = (x1 + x2) / Fin 2 + perpX * height;
         y3 = (y1 + y2) / Fin 2 + perpY * height
     in (x1, y1, x2, y2, x3, y3))"

definition createAdjacentTriangle :: "app_state \<Rightarrow> ref \<Rightarrow> side \<Rightarrow> app_state \<times> ref option" where
  "createAdjacentTriangle s triangleIndex sd =
    (if \<not> triangleIndex < length (gl_triangles s) then (s, None)
     else
       let triangle = gl_triangles s ! triangleIndex;
           newVertices = adjacentVertices triangle sd;
           (s1, newTriangle) = addTriangle s newVertices (Some triangleIndex) (Some sd)
       in case newTriangle of
            None \<Rightarrow> (s1, None)
          | Some new \<Rightarrow>
              let s2 = setNeighbor triangleIndex sd new s1;
                  s3 = (case find (\<lambda>newSide.
                                     sidesMatch (getSide (gl_triangles s2 ! new) newSide)
                                                (getSide (gl_triangles s2 ! triangleIndex) sd))
                                  all_sides of
                          Some newSide \<Rightarrow> setNeighbor new newSide triangleIndex s2
                        | None \<Rightarrow> s2);
                  newIndex = int new;
                  s4 = focusTriangle s3 newIndex;
                  s5 = selectTriangle s4 newIndex
              in (s5, Some new))"

text \<open>The vertex array that \<open>createInnerTriangle\<close> builds: the side, then the centre.\<close>

definition innerVertices :: "GLTriangle \<Rightarrow> side \<Rightarrow> vertices6" where
  "innerVertices triangle sd =
    (let (sx1, sy1, sx2, sy2) = getSide triangle sd;
         c = tri_center triangle
     in (sx1, sy1, sx2, sy2, fst c, snd c))"

definition createInnerTriangle :: "app_state \<Rightarrow> ref \<Rightarrow> side \<Rightarrow> app_state \<times> ref option" where
  "createInnerTriangle s triangleIndex sd =
    (if \<not> triangleIndex < length (gl_triangles s) then (s, None)
     else
       let triangle = gl_triangles s ! triangleIndex;
           newVertices = innerVertices triangle sd;
           (s1, newTriangle) = addTriangle s newVertices (Some triangleIndex) (Some sd)
       in case newTriangle of
            None \<Rightarrow> (s1, None)
          | Some new \<Rightarrow>
              let s2 = setInnerTriangle triangleIndex sd new s1;
                  newIndex = int new;
                  s3 = focusTriangle s2 newIndex;
                  s4 = selectTriangle s3 newIndex
              in (s4, Some new))"

text \<open>
  The vertex array that \<open>createOuterTriangle\<close> builds: the side, then the midpoint moved
  along the edge vector turned by 90 degrees.
\<close>

definition outerVertices :: "GLTriangle \<Rightarrow> side \<Rightarrow> vertices6" where
  "outerVertices triangle sd =
    (let (sx1, sy1, sx2, sy2) = getSide triangle sd;
         midpointX = (sx1 + sx2) / Fin 2;
         midpointY = (sy1 + sy2) / Fin 2;
         outwardX0 = - (sy2 - sy1);
         outwardY0 = sx2 - sx1;
         len = js_norm2 outwardX0 outwardY0;
         outwardX = outwardX0 / len;
         outwardY = outwardY0 / len;
         sideLength = js_norm2 (sx2 - sx1) (sy2 - sy1);
         height = sideLength * Fin (sqrt 3) / Fin 2;
         newVertexX = midpointX + outwardX * height;
         newVertexY = midpointY + outwardY * height
     in (sx1, sy1, sx2, sy2, newVertexX, newVertexY))"

definition createOuterTriangle :: "app_state \<Rightarrow> ref \<Rightarrow> side \<Rightarrow> app_state \<times> ref option" where
  "createOuterTriangle s triangleIndex sd =
    (if \<not> triangleIndex < length (gl_triangles s) then (s, None)
     else
       let triangle = gl_triangles s ! triangleIndex;
           newVertices = outerVertices triangle sd;
           (s1, newTriangle) = addTriangle s newVertices (Some triangleIndex) (Some sd)
       in case newTriangle of
            None \<Rightarrow> (s1, None)
          | Some new \<Rightarrow>
              let s2 = setOuterTriangle triangleIndex sd new s1;
                  newIndex = int new;
                  s3 = focusTriangle s2 newIndex;
                  s4 = selectTriangle s3 newIndex
              in (s4, Some new))"

section \<open>Notions used to state the properties\<close>

text \<open>The state in the creating branch of \<open>createAdjacentTriangle\<close>, before the focus moves.\<close>

definition adj_linked :: "TriangleManager \<Rightarrow> ref \<Rightarrow> side \<Rightarrow> TriangleManager" where
  "adj_linked m T e =
    (let new = length (triangles m);
         m1 = m\<lparr>triangles := triangles m @
                 [Triangle_new (getAdjacentTriangleVertices (triangles m ! T) e) (Some T) (Some e)]\<rparr>;
         m2 = update_at T (\<lambda>t. t\<lparr>neighbors := (neighbors t)(e \<mapsto> new)\<rparr>) m1
     in case findAdjacentSide (triangles m2 ! new) (triangles m2 ! T) of
          Some newSide \<Rightarrow> update_at new (\<lambda>t. t\<lparr>neighbors := (neighbors t)(newSide \<mapsto> T)\<rparr>) m2
        | None \<Rightarrow> m2)"

text \<open>The triangles of \<open>app.js\<close> whose \<open>selected\<close> flag is set.\<close>

definition selected_set :: "app_state \<Rightarrow> nat set" where
  "selected_set s =
    set (filter (\<lambda>i. tri_selected (gl_triangles s ! i)) [0..<length (gl_triangles s)])"

text \<open>The state of \<open>app.js\<close> after \<open>initWebGL\<close> has created the initial triangle.\<close>

definition app_seed :: app_state where
  "app_seed = fst (createInitialTriangle app_initial)"

text \<open>Distances and the equilateral test within a tolerance.\<close>

definition distanceTo :: "Vector3 \<Rightarrow> Vector3 \<Rightarrow> jsnum" where
  "distanceTo a b = length3 (subVectors a b)"

definition withinTol :: "jsnum \<Rightarrow> jsnum \<Rightarrow> jsnum \<Rightarrow> bool" where
  "withinTol eps a b = (\<bar>a - b\<bar> < eps)"

definition equilateral3 :: "jsnum \<Rightarrow> vertices3 \<Rightarrow> bool" where
  "equilateral3 eps vs =
    (let d01 = distanceTo (vertex vs S0) (vertex vs S1);
         d12 = distanceTo (vertex vs S1) (vertex vs S2);
         d20 = distanceTo (vertex vs S2) (vertex vs S0)
     in withinTol eps d01 d12 \<and> withinTol eps d12 d20 \<and> withinTol eps d20 d01)"

text \<open>A vertex with finite coordinates in the drawing plane \<open>z = 0\<close>.\<close>

definition in_plane :: "Vector3 \<Rightarrow> bool" where
  "in_plane v = (is_finite (vx v) \<and> is_finite (vy v) \<and> vz v = Fin 0)"

text \<open>
  The manager after \<open>n\<close> calls of \<open>createInnerTriangle\<close> from the initial state, each on
  side 0 of the triangle created last.
\<close>

fun tm_grow :: "nat \<Rightarrow> TriangleManager" where
  "tm_grow 0 = TriangleManager_new"
| "tm_grow (Suc n) =
     (case TM_createInnerTriangle (tm_grow n) n S0 of Some (m, _) \<Rightarrow> m | None \<Rightarrow> tm_grow n)"

text \<open>A triangle of the Three.js model whose vertices and centre lie in the plane.\<close>

definition wf3 :: "Triangle \<Rightarrow> bool" where
  "wf3 t = (in_plane (vertex (vertices t) S0) \<and> in_plane (vertex (vertices t) S1) \<and>
            in_plane (vertex (vertices t) S2) \<and> in_plane (center t))"

text \<open>Every triangle of the store lies in the plane and is equilateral within \<open>eps\<close>.\<close>

definition tm_equilateral :: "jsnum \<Rightarrow> TriangleManager \<Rightarrow> bool" where
  "tm_equilateral eps m =
     list_all (\<lambda>t. wf3 t \<and> equilateral3 eps (vertices t)) (triangles m)"

text \<open>The geometry of a triangle: what no manager operation changes after construction.\<close>

definition geom :: "Triangle \<Rightarrow> vertices3 \<times> Vector3" where
  "geom t = (vertices t, center t)"

text \<open>The same notions on the flat vertex arrays of the WebGL model.\<close>

definition dist2 :: "jsnum \<times> jsnum \<Rightarrow> jsnum \<times> jsnum \<Rightarrow> jsnum" where
  "dist2 p q = Math_sqrt ((fst p - fst q) * (fst p - fst q) + (snd p - snd q) * (snd p - snd q))"

definition equilateral6 :: "jsnum \<Rightarrow> vertices6 \<Rightarrow> bool" where
  "equilateral6 eps vs =
    (case vs of (x1, y1, x2, y2, x3, y3) \<Rightarrow>
      let d12 = dist2 (x1, y1) (x2, y2);
          d23 = dist2 (x2, y2) (x3, y3);
          d31 = dist2 (x3, y3) (x1, y1)
      in withinTol eps d12 d23 \<and> withinTol eps d23 d31 \<and> withinTol eps d31 d12)"

text \<open>A finite coordinate of magnitude at most \<open>2^20\<close>.\<close>

definition coord_bounded :: "jsnum \<Rightarrow> bool" where
  "coord_bounded a = (case a of Fin r \<Rightarrow> \<bar>r\<bar> \<le> 2 ^ 20 | _ \<Rightarrow> False)"

text \<open>
  Side \<open>e\<close> can be measured: its endpoints have finite coordinates of magnitude at most
  \<open>2^20\<close>, and its length as \<open>createAdjacentTriangle\<close> and \<open>createOuterTriangle\<close> compute it
  is not 0.
\<close>

definition measurable_edge :: "GLTriangle \<Rightarrow> side \<Rightarrow> bool" where
  "measurable_edge t e =
    (case getSide t e of (x1, y1, x2, y2) \<Rightarrow>
       coord_bounded x1 \<and> coord_bounded y1 \<and> coord_bounded x2 \<and> coord_bounded y2 \<and>
       js_norm2 (x2 - x1) (y2 - y1) \<noteq> Fin 0)"

text \<open>Side \<open>e\<close> has length zero: its two endpoints are the same point.\<close>

definition zero_length_edge :: "GLTriangle \<Rightarrow> side \<Rightarrow> bool" where
  "zero_length_edge t e = (case getSide t e of (x1, y1, x2, y2) \<Rightarrow> x1 = x2 \<and> y1 = y2)"

text \<open>
  States holding one triangle whose side 0 has length zero: \<open>addTriangle\<close> of the WebGL model
  on the vertices \<open>[0,0, 0,0, 1,0]\<close>, and a Three.js store with a triangle constructed from
  the vertices \<open>(0,0,0), (0,0,0), (1,0,0)\<close>.
\<close>

definition app_degenerate :: app_state where
  "app_degenerate = fst (addTriangle app_initial (Fin 0, Fin 0, Fin 0, Fin 0, Fin 1, Fin 0) None None)"

definition tm_degenerate :: TriangleManager where
  "tm_degenerate =
     fst (TM_addTriangle \<lparr> triangles = [], focusedTriangle = None, selectedTriangles = [] \<rparr>
            (Triangle_new (Vector3 (Fin 0) (Fin 0) (Fin 0), Vector3 (Fin 0) (Fin 0) (Fin 0),
                           Vector3 (Fin 1) (Fin 0) (Fin 0)) None None))"

section \<open>Numbers and vectors\<close>

lemma Fin_minus [simp]: "Fin a - Fin b = Fin (a - b)"
  by (simp add: minus_jsnum_def)

lemma js_or_Fin [simp]: "js_or (Fin a) b = (if a = 0 then b else Fin a)"
  by (simp add: js_or_def)

lemma sqrt_sum_squares_zero_iff: "sqrt (a * a + b * b) = 0 \<longleftrightarrow> a = 0 \<and> b = (0::real)"
  by (metis real_sqrt_eq_zero_cancel_iff sum_squares_eq_zero_iff real_sqrt_zero)

lemma length3_Fin [simp]:
  "length3 (Vector3 (Fin a) (Fin b) (Fin c)) = Fin (sqrt (a * a + b * b + c * c))"
proof -
  have "\<not> a * a + b * b + c * c < 0"
    by (simp add: not_less add_nonneg_nonneg)
  then show ?thesis by (simp add: length3_def)
qed

lemma subVectors_Fin [simp]:
  "subVectors (Vector3 (Fin a) (Fin b) (Fin c)) (Vector3 (Fin a') (Fin b') (Fin c')) =
     Vector3 (Fin (a - a')) (Fin (b - b')) (Fin (c - c'))"
  by (simp add: subVectors_def)

lemma addVectors_Fin [simp]:
  "addVectors (Vector3 (Fin a) (Fin b) (Fin c)) (Vector3 (Fin a') (Fin b') (Fin c')) =
     Vector3 (Fin (a + a')) (Fin (b + b')) (Fin (c + c'))"
  by (simp add: addVectors_def)

lemma multiplyScalar_Fin [simp]:
  "multiplyScalar (Vector3 (Fin a) (Fin b) (Fin c)) (Fin k) =
     Vector3 (Fin (a * k)) (Fin (b * k)) (Fin (c * k))"
  by (simp add: multiplyScalar_def)

lemma normalize_Fin:
  "normalize (Vector3 (Fin a) (Fin b) (Fin c)) =
     (if sqrt (a * a + b * b + c * c) = 0 then Vector3 (Fin a) (Fin b) (Fin c)
      else Vector3 (Fin (a / sqrt (a * a + b * b + c * c)))
                   (Fin (b / sqrt (a * a + b * b + c * c)))
                   (Fin (c / sqrt (a * a + b * b + c * c))))"
  by (simp add: normalize_def divideScalar_def)

lemma in_planeE:
  assumes "in_plane v"
  obtains a b where "v = Vector3 (Fin a) (Fin b) (Fin 0)"
  using assms by (cases v) (auto simp add: in_plane_def is_finite_def split: jsnum.splits)

lemma in_plane_Fin [simp]: "in_plane (Vector3 (Fin a) (Fin b) c) \<longleftrightarrow> c = Fin 0"
  by (simp add: in_plane_def is_finite_def)

section \<open>The constructor of the Three.js model\<close>

lemma makeEquilateral_indep:
  "makeEquilateral (v0, v1, v2) = makeEquilateral (v0, v1, v2')"
  by (simp add: makeEquilateral_def)

lemma Triangle_new_indep:
  "Triangle_new (v0, v1, v2) par sd = Triangle_new (v0, v1, v2') par sd"
  by (simp add: Triangle_new_def makeEquilateral_indep[of v0 v1 v2 v2'])

lemma Triangle_new_vertices [simp]: "vertices (Triangle_new v p sd) = makeEquilateral v"
  by (simp add: Triangle_new_def Let_def)

lemma Triangle_new_neighbors [simp]: "neighbors (Triangle_new v p sd) = (\<lambda>_. None)"
  by (simp add: Triangle_new_def Let_def)

lemma makeEquilateral_finite:
  fixes x0 y0 z0 x1 y1 z1 :: real
  defines "dx \<equiv> x1 - x0" and "dy \<equiv> y1 - y0" and "dz \<equiv> z1 - z0"
  defines "N \<equiv> sqrt (dy * dy + dx * dx)"
  defines "h \<equiv> sqrt (dx * dx + dy * dy + dz * dz) * sqrt 3 / 2"
  shows "makeEquilateral (Vector3 (Fin x0) (Fin y0) (Fin z0), Vector3 (Fin x1) (Fin y1) (Fin z1), v2) =
    (Vector3 (Fin x0) (Fin y0) (Fin z0), Vector3 (Fin x1) (Fin y1) (Fin z1),
     if N = 0 then Vector3 (Fin ((x0 + x1) / 2)) (Fin ((y0 + y1) / 2)) (Fin ((z0 + z1) / 2))
     else Vector3 (Fin ((x0 + x1) / 2 + (- dy / N) * h)) (Fin ((y0 + y1) / 2 + (dx / N) * h))
                  (Fin ((z0 + z1) / 2)))"
proof -
  have sq: "(y0 - y1) * (y0 - y1) = (y1 - y0) * (y1 - y0)" by (simp add: algebra_simps)
  show "?thesis"
    unfolding makeEquilateral_def Let_def assms
    by (simp add: normalize_Fin sq)
qed

lemma makeEquilateral_plane:
  "makeEquilateral (Vector3 (Fin x0) (Fin y0) (Fin 0), Vector3 (Fin x1) (Fin y1) (Fin 0), w) =
    (Vector3 (Fin x0) (Fin y0) (Fin 0), Vector3 (Fin x1) (Fin y1) (Fin 0),
     Vector3 (Fin ((x0 + x1) / 2 - (y1 - y0) * (sqrt 3 / 2)))
             (Fin ((y0 + y1) / 2 + (x1 - x0) * (sqrt 3 / 2))) (Fin 0))"
proof (cases "sqrt ((y1 - y0) * (y1 - y0) + (x1 - x0) * (x1 - x0)) = 0")
  case True
  then have "y1 - y0 = 0 \<and> x1 - x0 = 0"
    by (simp only: sqrt_sum_squares_zero_iff)
  then show ?thesis
    using True by (simp add: makeEquilateral_finite)
next
  case False
  then have N: "sqrt ((x1 - x0) * (x1 - x0) + (y1 - y0) * (y1 - y0)) \<noteq> 0"
    by (simp add: add.commute)
  show ?thesis
    using False N by (simp add: makeEquilateral_finite add.commute) (simp add: algebra_simps)
qed

section \<open>The store of the Three.js manager\<close>

lemma update_at_length [simp]: "length (triangles (update_at r f m)) = length (triangles m)"
  by (simp add: update_at_def)

lemma update_at_focusedTriangle [simp]: "focusedTriangle (update_at r f m) = focusedTriangle m"
  by (simp add: update_at_def)

lemma update_at_selectedTriangles [simp]: "selectedTriangles (update_at r f m) = selectedTriangles m"
  by (simp add: update_at_def)

lemma update_at_nth:
  "i < length (triangles m) \<Longrightarrow>
   triangles (update_at r f m) ! i = (if i = r then f (triangles m ! i) else triangles m ! i)"
  by (simp add: update_at_def)

lemma update_at_focusedTriangle_update [simp]:
  "update_at r f (m\<lparr>focusedTriangle := x\<rparr>) = (update_at r f m)\<lparr>focusedTriangle := x\<rparr>"
  by (simp add: update_at_def)

lemma setFocusedTriangle_length [simp]:
  "length (triangles (setFocusedTriangle m r)) = length (triangles m)"
  by (simp add: setFocusedTriangle_def setFocus_def Let_def split: option.splits)

lemma setFocusedTriangle_focused [simp]:
  "focusedTriangle (setFocusedTriangle m r) = r"
  by (simp add: setFocusedTriangle_def setFocus_def Let_def split: option.splits)

lemma setFocusedTriangle_nth:
  "i < length (triangles m) \<Longrightarrow>
   triangles (setFocusedTriangle m r) ! i =
     (if r = Some i then (triangles m ! i)\<lparr>focused := True\<rparr>
      else if focusedTriangle m = Some i then (triangles m ! i)\<lparr>focused := False\<rparr>
      else triangles m ! i)"
  by (auto simp add: setFocusedTriangle_def setFocus_def Let_def update_at_nth split: option.splits)

lemma setFocusedTriangle_idem:
  "setFocusedTriangle (setFocusedTriangle m (Some n)) (Some n) = setFocusedTriangle m (Some n)"
proof -
  let ?m1 = "setFocusedTriangle m (Some n)"
  have "triangles (setFocusedTriangle ?m1 (Some n)) = triangles ?m1"
    by (rule nth_equalityI) (simp_all add: setFocusedTriangle_nth)
  moreover have "focusedTriangle (setFocusedTriangle ?m1 (Some n)) = focusedTriangle ?m1"
    by simp
  moreover have "selectedTriangles (setFocusedTriangle ?m1 (Some n)) = selectedTriangles ?m1"
    by (simp add: setFocusedTriangle_def setFocus_def Let_def split: option.splits)
  ultimately show ?thesis
    by (simp add: TriangleManager.equality)
qed

lemma setFocusedTriangle_neighbors:
  "i < length (triangles m) \<Longrightarrow>
   neighbors (triangles (setFocusedTriangle m r) ! i) = neighbors (triangles m ! i)"
  by (simp add: setFocusedTriangle_nth)

lemma setFocusedTriangle_vertices:
  "i < length (triangles m) \<Longrightarrow>
   vertices (triangles (setFocusedTriangle m r) ! i) = vertices (triangles m ! i)"
  by (simp add: setFocusedTriangle_nth)

lemma findAdjacentSide_cong:
  "vertices a = vertices a' \<Longrightarrow> vertices b = vertices b' \<Longrightarrow>
   findAdjacentSide a b = findAdjacentSide a' b'"
  by (simp add: findAdjacentSide_def sharedCount_def)

subsection \<open>The two branches of \<open>createAdjacentTriangle\<close>\<close>

lemma TM_createAdjacentTriangle_reuse:
  assumes "T < length (triangles m)" "neighbors (triangles m ! T) e = Some n"
  shows "TM_createAdjacentTriangle m T e = Some (setFocusedTriangle m (Some n), n)"
  using assms by (simp add: TM_createAdjacentTriangle_def)

lemma TM_createAdjacentTriangle_fresh:
  assumes "T < length (triangles m)" "neighbors (triangles m ! T) e = None"
  shows "TM_createAdjacentTriangle m T e =
           Some (setFocusedTriangle (adj_linked m T e) (Some (length (triangles m))),
                 length (triangles m))"
  using assms
  by (simp add: TM_createAdjacentTriangle_def TM_addTriangle_def adj_linked_def Let_def)

lemma adj_linked_length [simp]:
  "length (triangles (adj_linked m T e)) = Suc (length (triangles m))"
  by (simp add: adj_linked_def Let_def split: option.splits)

lemma adj_linked_neighbors_T:
  assumes "T < length (triangles m)"
  shows "neighbors (triangles (adj_linked m T e) ! T) e = Some (length (triangles m))"
  using assms by (simp add: adj_linked_def Let_def update_at_nth nth_append split: option.splits)

lemma adj_linked_vertices_old:
  assumes "i < length (triangles m)"
  shows "vertices (triangles (adj_linked m T e) ! i) = vertices (triangles m ! i)"
  using assms by (simp add: adj_linked_def Let_def update_at_nth nth_append split: option.splits)

lemma adj_linked_vertices_new:
  shows "vertices (triangles (adj_linked m T e) ! length (triangles m)) =
         makeEquilateral (getAdjacentTriangleVertices (triangles m ! T) e)"
  by (simp add: adj_linked_def Let_def update_at_nth nth_append split: option.splits)

lemma adj_linked_reciprocal:
  assumes "T < length (triangles m)"
    and "findAdjacentSide (triangles (adj_linked m T e) ! length (triangles m))
                          (triangles (adj_linked m T e) ! T) = Some r"
  shows "neighbors (triangles (adj_linked m T e) ! length (triangles m)) r = Some T"
proof -
  let ?new = "length (triangles m)"
  let ?m1 = "m\<lparr>triangles := triangles m @
                 [Triangle_new (getAdjacentTriangleVertices (triangles m ! T) e) (Some T) (Some e)]\<rparr>"
  let ?m2 = "update_at T (\<lambda>t. t\<lparr>neighbors := (neighbors t)(e \<mapsto> ?new)\<rparr>) ?m1"
  have v1: "vertices (triangles ?m2 ! ?new) = vertices (triangles (adj_linked m T e) ! ?new)"
    using assms(1) by (simp add: adj_linked_vertices_new update_at_nth nth_append)
  have v2: "vertices (triangles ?m2 ! T) = vertices (triangles (adj_linked m T e) ! T)"
    using assms(1) by (simp add: adj_linked_vertices_old update_at_nth nth_append)
  have "findAdjacentSide (triangles ?m2 ! ?new) (triangles ?m2 ! T) = Some r"
    using assms(2) findAdjacentSide_cong[OF v1 v2] by simp
  then show ?thesis
    using assms(1) by (simp add: adj_linked_def Let_def update_at_nth)
qed

subsection \<open>The initial state of the manager\<close>

lemma TM_new_length: "length (triangles TriangleManager_new) = 1"
  by (simp add: TriangleManager_new_def TM_createInitialTriangle_def TM_addTriangle_def Let_def
                setFocusedTriangle_def setFocus_def update_at_def)

lemma TM_new_focus: "focusedTriangle TriangleManager_new = Some 0"
  by (simp add: TriangleManager_new_def TM_createInitialTriangle_def TM_addTriangle_def Let_def
                setFocusedTriangle_def setFocus_def update_at_def)

lemma TM_new_links:
  "neighbors (triangles TriangleManager_new ! 0) = (\<lambda>_. None)"
  "innerTriangles (triangles TriangleManager_new ! 0) = (\<lambda>_. None)"
  "outerTriangles (triangles TriangleManager_new ! 0) = (\<lambda>_. None)"
  by (simp_all add: TriangleManager_new_def TM_createInitialTriangle_def TM_addTriangle_def Let_def
                setFocusedTriangle_def setFocus_def update_at_def Triangle_new_def)

lemma TM_new_vertices:
  "vertices (triangles TriangleManager_new ! 0) =
     (Vector3 (Fin (- 3 / 4)) (Fin (- sqrt 3 / 4)) (Fin 0),
      Vector3 (Fin (3 / 4)) (Fin (- sqrt 3 / 4)) (Fin 0),
      Vector3 (Fin 0) (Fin (sqrt 3 / 2)) (Fin 0))"
  by (simp add: TriangleManager_new_def TM_createInitialTriangle_def TM_addTriangle_def Let_def
                setFocusedTriangle_def setFocus_def update_at_def Triangle_new_def makeEquilateral_plane)

lemma TM_adjacent_seed_S0:
  "\<exists>m'. TM_createAdjacentTriangle TriangleManager_new 0 S0 = Some (m', 1) \<and>
     vertices (triangles m' ! 1) = vertices (triangles TriangleManager_new ! 0) \<and>
     vertices (triangles m' ! 0) = vertices (triangles TriangleManager_new ! 0)"
proof -
  let ?l = "adj_linked TriangleManager_new 0 S0"
  let ?m' = "setFocusedTriangle ?l (Some 1)"
  have c: "TM_createAdjacentTriangle TriangleManager_new 0 S0 = Some (?m', 1)"
    using TM_createAdjacentTriangle_fresh[of 0 TriangleManager_new S0]
    by (simp add: TM_new_length TM_new_links)
  have "vertices (triangles ?l ! 1) =
        makeEquilateral (getAdjacentTriangleVertices (triangles TriangleManager_new ! 0) S0)"
    using adj_linked_vertices_new[of TriangleManager_new 0 S0] by (simp add: TM_new_length)
  also have "\<dots> = vertices (triangles TriangleManager_new ! 0)"
    by (simp add: getAdjacentTriangleVertices_def TM_new_vertices Let_def makeEquilateral_plane)
  finally have v1: "vertices (triangles ?m' ! 1) = vertices (triangles TriangleManager_new ! 0)"
    by (simp add: setFocusedTriangle_vertices TM_new_length)
  have v0: "vertices (triangles ?m' ! 0) = vertices (triangles TriangleManager_new ! 0)"
    using adj_linked_vertices_old[of 0 TriangleManager_new 0 S0]
    by (simp add: setFocusedTriangle_vertices TM_new_length)
  from c v1 v0 show ?thesis by blast
qed

lemma findAdjacentSide_seed:
  assumes "vertices a = vertices (triangles TriangleManager_new ! 0)"
     "vertices b = vertices (triangles TriangleManager_new ! 0)"
  shows "findAdjacentSide a b = Some S0"
  using assms
  by (simp add: findAdjacentSide_def sharedCount_def all_sides_def TM_new_vertices
        verticesEqual_def default_epsilon_def Let_def)

section \<open>The state of the WebGL model\<close>

lemma gl_update_at_length [simp]:
  "length (gl_triangles (gl_update_at r f s)) = length (gl_triangles s)"
  by (simp add: gl_update_at_def)

lemma gl_update_at_triangleCount [simp]: "triangleCount (gl_update_at r f s) = triangleCount s"
  by (simp add: gl_update_at_def)

lemma gl_update_at_focusedTriangleIndex [simp]:
  "focusedTriangleIndex (gl_update_at r f s) = focusedTriangleIndex s"
  by (simp add: gl_update_at_def)

lemma gl_update_at_nth:
  "i < length (gl_triangles s) \<Longrightarrow>
   gl_triangles (gl_update_at r f s) ! i =
     (if i = r then f (gl_triangles s ! i) else gl_triangles s ! i)"
  by (simp add: gl_update_at_def)

lemma focusTriangle_length [simp]:
  "length (gl_triangles (focusTriangle s i)) = length (gl_triangles s)"
  by (simp add: focusTriangle_def Let_def)

lemma focusTriangle_triangleCount [simp]: "triangleCount (focusTriangle s i) = triangleCount s"
  by (simp add: focusTriangle_def Let_def)

lemma focusTriangle_focusedTriangleIndex [simp]: "focusedTriangleIndex (focusTriangle s i) = i"
  by (simp add: focusTriangle_def Let_def)

lemma clearSelected_length [simp]:
  "length (gl_triangles (clearSelected s)) = length (gl_triangles s)"
  by (simp add: clearSelected_def)

lemma clearSelected_triangleCount [simp]: "triangleCount (clearSelected s) = triangleCount s"
  by (simp add: clearSelected_def)

lemma clearSelected_nth:
  "i < triangleCount s \<Longrightarrow> i < length (gl_triangles s) \<Longrightarrow>
   \<not> tri_selected (gl_triangles (clearSelected s) ! i)"
  by (simp add: clearSelected_def nth_append)

lemma selectTriangle_length [simp]:
  "length (gl_triangles (selectTriangle s i)) = length (gl_triangles s)"
  by (simp add: selectTriangle_def Let_def)

lemma selectTriangle_triangleCount [simp]: "triangleCount (selectTriangle s i) = triangleCount s"
  by (simp add: selectTriangle_def Let_def)

lemma selectTriangle_focusedTriangleIndex [simp]:
  "focusedTriangleIndex (selectTriangle s i) = focusedTriangleIndex s"
  by (simp add: selectTriangle_def Let_def clearSelected_def)

lemma selectTriangle_selected:
  assumes "triangleCount s = length (gl_triangles s)" "n < length (gl_triangles s)"
  shows "selected_set (selectTriangle s (int n)) = {n}"
    and "selectedTriangleIndex (selectTriangle s (int n)) = int n"
proof -
  have "\<And>i. i < length (gl_triangles s) \<Longrightarrow>
          tri_selected (gl_triangles (selectTriangle s (int n)) ! i) \<longleftrightarrow> i = n"
    using assms by (simp add: selectTriangle_def Let_def gl_update_at_nth clearSelected_nth)
  then show "selected_set (selectTriangle s (int n)) = {n}"
    using assms(2) by (auto simp add: selected_set_def)
  show "selectedTriangleIndex (selectTriangle s (int n)) = int n"
    using assms by (simp add: selectTriangle_def Let_def)
qed

lemma addTriangle_full:
  "MAX_TRIANGLES \<le> triangleCount s \<Longrightarrow> addTriangle s v p ps = (s, None)"
  by (simp add: addTriangle_def)

lemma addTriangle_room:
  assumes "triangleCount s < MAX_TRIANGLES"
  shows "snd (addTriangle s v p ps) = Some (length (gl_triangles s))"
    and "length (gl_triangles (fst (addTriangle s v p ps))) = Suc (length (gl_triangles s))"
    and "triangleCount (fst (addTriangle s v p ps)) = Suc (triangleCount s)"
  using assms
  by (simp_all add: addTriangle_def Let_def setChild_def split: option.splits)

lemma addTriangle_cases:
  "addTriangle s v p ps = (s', r) \<Longrightarrow>
     (r = None \<and> s' = s \<and> MAX_TRIANGLES \<le> triangleCount s) \<or>
     (r = Some (length (gl_triangles s)) \<and> triangleCount s < MAX_TRIANGLES \<and>
      length (gl_triangles s') = Suc (length (gl_triangles s)) \<and>
      triangleCount s' = Suc (triangleCount s))"
  using addTriangle_room[of s v p ps] addTriangle_full[of s v p ps]
  by (cases "triangleCount s < MAX_TRIANGLES") auto

lemma setNeighbor_length [simp]:
  "length (gl_triangles (setNeighbor r sd t s)) = length (gl_triangles s)"
  by (simp add: setNeighbor_def)

lemma setNeighbor_triangleCount [simp]: "triangleCount (setNeighbor r sd t s) = triangleCount s"
  by (simp add: setNeighbor_def)

lemma setInnerTriangle_length [simp]:
  "length (gl_triangles (setInnerTriangle r sd t s)) = length (gl_triangles s)"
  by (simp add: setInnerTriangle_def)

lemma setInnerTriangle_triangleCount [simp]:
  "triangleCount (setInnerTriangle r sd t s) = triangleCount s"
  by (simp add: setInnerTriangle_def)

lemma setOuterTriangle_length [simp]:
  "length (gl_triangles (setOuterTriangle r sd t s)) = length (gl_triangles s)"
  by (simp add: setOuterTriangle_def)

lemma setOuterTriangle_triangleCount [simp]:
  "triangleCount (setOuterTriangle r sd t s) = triangleCount s"
  by (simp add: setOuterTriangle_def)

lemma createAdjacentTriangle_Some:
  assumes "createAdjacentTriangle s t e = (s', Some new)"
  shows "\<exists>s4. s' = selectTriangle s4 (int new) \<and>
          length (gl_triangles s4) = Suc (length (gl_triangles s)) \<and>
          triangleCount s4 = Suc (triangleCount s) \<and> new = length (gl_triangles s) \<and>
          focusedTriangleIndex s4 = int new"
proof -
  from assms have t: "t < length (gl_triangles s)"
    by (auto simp add: createAdjacentTriangle_def split: if_splits)
  obtain s1 r where
    a: "addTriangle s (adjacentVertices (gl_triangles s ! t) e) (Some t) (Some e) = (s1, r)"
    by (cases "addTriangle s (adjacentVertices (gl_triangles s ! t) e) (Some t) (Some e)")
  from assms t a have r: "r = Some new"
    by (auto simp add: createAdjacentTriangle_def Let_def split: option.splits)
  from addTriangle_cases[OF a] r have f: "new = length (gl_triangles s)"
     "length (gl_triangles s1) = Suc (length (gl_triangles s))"
     "triangleCount s1 = Suc (triangleCount s)"
    by auto
  from assms t a r show ?thesis
    by (auto simp add: createAdjacentTriangle_def Let_def f split: option.splits)
qed

lemma createInnerTriangle_Some:
  assumes "createInnerTriangle s t e = (s', Some new)"
  shows "\<exists>s4. s' = selectTriangle s4 (int new) \<and>
          length (gl_triangles s4) = Suc (length (gl_triangles s)) \<and>
          triangleCount s4 = Suc (triangleCount s) \<and> new = length (gl_triangles s) \<and>
          focusedTriangleIndex s4 = int new"
proof -
  from assms have t: "t < length (gl_triangles s)"
    by (auto simp add: createInnerTriangle_def split: if_splits)
  obtain s1 r where
    a: "addTriangle s (innerVertices (gl_triangles s ! t) e) (Some t) (Some e) = (s1, r)"
    by (cases "addTriangle s (innerVertices (gl_triangles s ! t) e) (Some t) (Some e)")
  from assms t a have r: "r = Some new"
    by (auto simp add: createInnerTriangle_def Let_def split: option.splits)
  from addTriangle_cases[OF a] r have f: "new = length (gl_triangles s)"
     "length (gl_triangles s1) = Suc (length (gl_triangles s))"
     "triangleCount s1 = Suc (triangleCount s)"
    by auto
  from assms t a r show ?thesis
    by (auto simp add: createInnerTriangle_def Let_def f split: option.splits)
qed

lemma createOuterTriangle_Some:
  assumes "createOuterTriangle s t e = (s', Some new)"
  shows "\<exists>s4. s' = selectTriangle s4 (int new) \<and>
          length (gl_triangles s4) = Suc (length (gl_triangles s)) \<and>
          triangleCount s4 = Suc (triangleCount s) \<and> new = length (gl_triangles s) \<and>
          focusedTriangleIndex s4 = int new"
proof -
  from assms have t: "t < length (gl_triangles s)"
    by (auto simp add: createOuterTriangle_def split: if_splits)
  obtain s1 r where
    a: "addTriangle s (outerVertices (gl_triangles s ! t) e) (Some t) (Some e) = (s1, r)"
    by (cases "addTriangle s (outerVertices (gl_triangles s ! t) e) (Some t) (Some e)")
  from assms t a have r: "r = Some new"
    by (auto simp add: createOuterTriangle_def Let_def split: option.splits)
  from addTriangle_cases[OF a] r have f: "new = length (gl_triangles s)"
     "length (gl_triangles s1) = Suc (length (gl_triangles s))"
     "triangleCount s1 = Suc (triangleCount s)"
    by auto
  from assms t a r show ?thesis
    by (auto simp add: createOuterTriangle_def Let_def f split: option.splits)
qed

lemma createAdjacentTriangle_room:
  assumes "t < length (gl_triangles s)" "triangleCount s < MAX_TRIANGLES"
  shows "snd (createAdjacentTriangle s t e) = Some (length (gl_triangles s))"
    and "triangleCount (fst (createAdjacentTriangle s t e)) = Suc (triangleCount s)"
    and "length (gl_triangles (fst (createAdjacentTriangle s t e))) = Suc (length (gl_triangles s))"
proof -
  let ?a = "addTriangle s (adjacentVertices (gl_triangles s ! t) e) (Some t) (Some e)"
  have a: "snd ?a = Some (length (gl_triangles s))"
     "length (gl_triangles (fst ?a)) = Suc (length (gl_triangles s))"
     "triangleCount (fst ?a) = Suc (triangleCount s)"
    using addTriangle_room[OF assms(2)] by simp_all
  show "snd (createAdjacentTriangle s t e) = Some (length (gl_triangles s))"
    using assms(1) a by (simp add: createAdjacentTriangle_def Let_def split_def split: option.splits)
  show "triangleCount (fst (createAdjacentTriangle s t e)) = Suc (triangleCount s)"
    using assms(1) a by (simp add: createAdjacentTriangle_def Let_def split_def split: option.splits)
  show "length (gl_triangles (fst (createAdjacentTriangle s t e))) = Suc (length (gl_triangles s))"
    using assms(1) a by (simp add: createAdjacentTriangle_def Let_def split_def split: option.splits)
qed

lemma app_seed_counts:
  "triangleCount app_seed = 1" "length (gl_triangles app_seed) = 1"
  using addTriangle_room(2,3)[of app_initial]
  by (simp_all add: app_seed_def createInitialTriangle_def Let_def app_initial_def MAX_TRIANGLES_def)

section \<open>Reuse of an existing neighbour (C1)\<close>

text \<open>
  C1, for the Three.js manager.  When \<open>createAdjacentTriangle(T, e)\<close> has returned a triangle,
  calling it again on the state it left returns the same triangle and leaves the whole
  state as it is: no triangle is added, no link changes, and the focus stays on that
  triangle.
\<close>

theorem createAdjacent_twice_reuses:
  assumes "TM_createAdjacentTriangle m T e = Some (m1, n1)"
  shows "TM_createAdjacentTriangle m1 T e = Some (m1, n1) \<and> focusedTriangle m1 = Some n1"
proof -
  from assms have T: "T < length (triangles m)"
    by (simp add: TM_createAdjacentTriangle_def split: if_splits)
  show ?thesis
  proof (cases "neighbors (triangles m ! T) e")
    case (Some n)
    with T assms have m1: "m1 = setFocusedTriangle m (Some n)" and n1: "n1 = n"
      by (auto simp add: TM_createAdjacentTriangle_reuse)
    have "neighbors (triangles m1 ! T) e = Some n"
      using T Some by (simp add: m1 setFocusedTriangle_neighbors)
    moreover have "T < length (triangles m1)" using T by (simp add: m1)
    ultimately have "TM_createAdjacentTriangle m1 T e = Some (setFocusedTriangle m1 (Some n), n)"
      by (rule TM_createAdjacentTriangle_reuse[rotated])
    then show ?thesis by (simp add: m1 n1 setFocusedTriangle_idem)
  next
    case None
    let ?n = "length (triangles m)"
    from None T assms have m1: "m1 = setFocusedTriangle (adj_linked m T e) (Some ?n)"
      and n1: "n1 = ?n"
      by (auto simp add: TM_createAdjacentTriangle_fresh)
    have "neighbors (triangles m1 ! T) e = Some ?n"
      using T by (simp add: m1 setFocusedTriangle_neighbors adj_linked_neighbors_T)
    moreover have "T < length (triangles m1)" using T by (simp add: m1)
    ultimately have "TM_createAdjacentTriangle m1 T e = Some (setFocusedTriangle m1 (Some ?n), ?n)"
      by (rule TM_createAdjacentTriangle_reuse[rotated])
    then show ?thesis by (simp add: m1 n1 setFocusedTriangle_idem)
  qed
qed

theorem createAdjacent_twice_reuses_witness:
  "\<exists>m1 n1. TM_createAdjacentTriangle TriangleManager_new 0 S0 = Some (m1, n1) \<and>
     TM_createAdjacentTriangle m1 0 S0 = Some (m1, n1) \<and> focusedTriangle m1 = Some n1"
proof -
  have "TM_createAdjacentTriangle TriangleManager_new 0 S0 \<noteq> None"
    by (simp add: TM_createAdjacentTriangle_fresh TM_new_length TM_new_links)
  then obtain m1 n1 where h: "TM_createAdjacentTriangle TriangleManager_new 0 S0 = Some (m1, n1)"
    by fastforce
  from createAdjacent_twice_reuses[OF h] h show ?thesis by blast
qed

text \<open>
  The WebGL \<open>createAdjacentTriangle\<close> has no reuse test.  From the initial state, the first
  call on triangle 0, side 0 returns triangle 1 and the second call returns a new triangle
  2; the count goes from 2 to 3.
\<close>

theorem createAdjacent_twice_app_counterexample:
  "snd (createAdjacentTriangle app_seed 0 S0) = Some 1 \<and>
   snd (createAdjacentTriangle (fst (createAdjacentTriangle app_seed 0 S0)) 0 S0) = Some 2 \<and>
   triangleCount (fst (createAdjacentTriangle app_seed 0 S0)) = 2 \<and>
   triangleCount (fst (createAdjacentTriangle (fst (createAdjacentTriangle app_seed 0 S0)) 0 S0)) = 3"
proof -
  let ?s1 = "fst (createAdjacentTriangle app_seed 0 S0)"
  have 1: "snd (createAdjacentTriangle app_seed 0 S0) = Some 1"
      "triangleCount ?s1 = 2" "length (gl_triangles ?s1) = 2"
    using createAdjacentTriangle_room[of 0 app_seed S0]
    by (simp_all add: app_seed_counts MAX_TRIANGLES_def)
  have 2: "snd (createAdjacentTriangle ?s1 0 S0) = Some 2"
      "triangleCount (fst (createAdjacentTriangle ?s1 0 S0)) = 3"
    using createAdjacentTriangle_room[of 0 ?s1 S0]
    by (simp_all add: 1 MAX_TRIANGLES_def)
  from 1 2 show ?thesis by simp
qed

section \<open>Navigation (C6, C7)\<close>

text \<open>
  C6.  \<open>moveToAdjacentTriangle(e)\<close> navigates from the focused triangle \<open>T\<close>: with a neighbour on
  side \<open>e\<close> it returns that neighbour and the focus is on it; without one it returns \<open>null\<close>
  and the state is unchanged.  In both cases the store keeps its length and every triangle
  keeps its vertices: nothing is created.
\<close>

theorem navigate_moves_focus_only:
  assumes "focusedTriangle m = Some T" "T < length (triangles m)"
  shows "(case neighbors (triangles m ! T) e of
            Some n \<Rightarrow> snd (moveToAdjacentTriangle m e) = Some n \<and>
                      focusedTriangle (fst (moveToAdjacentTriangle m e)) = Some n
          | None \<Rightarrow> moveToAdjacentTriangle m e = (m, None))
         \<and> length (triangles (fst (moveToAdjacentTriangle m e))) = length (triangles m)
         \<and> map vertices (triangles (fst (moveToAdjacentTriangle m e))) = map vertices (triangles m)"
  using assms
  by (auto simp add: moveToAdjacentTriangle_def setFocusedTriangle_vertices
           intro!: nth_equalityI split: option.splits)

theorem navigate_moves_focus_only_witness:
  "focusedTriangle TriangleManager_new = Some 0 \<and> 0 < length (triangles TriangleManager_new) \<and>
   moveToAdjacentTriangle TriangleManager_new S0 = (TriangleManager_new, None) \<and>
   length (triangles (fst (moveToAdjacentTriangle TriangleManager_new S0))) = 1"
proof -
  have f: "focusedTriangle TriangleManager_new = Some 0" by (rule TM_new_focus)
  have l: "0 < length (triangles TriangleManager_new)" by (simp add: TM_new_length)
  from navigate_moves_focus_only[OF f l, of S0] f l show ?thesis
    by (simp add: TM_new_links TM_new_length)
qed

text \<open>
  C7.  When \<open>createAdjacentTriangle(T, e)\<close> creates a triangle and \<open>findAdjacentSide\<close> finds the
  reciprocal side \<open>r\<close> of the result, \<open>moveToAdjacentTriangle(r)\<close> from the result returns \<open>T\<close>
  and the focus is back on \<open>T\<close>.
\<close>

theorem navigate_back_over_reciprocal:
  assumes "T < length (triangles m)"
    and "neighbors (triangles m ! T) e = None"
    and "TM_createAdjacentTriangle m T e = Some (m', result)"
    and "findAdjacentSide (triangles m' ! result) (triangles m' ! T) = Some r"
  shows "snd (moveToAdjacentTriangle m' r) = Some T \<and>
         focusedTriangle (fst (moveToAdjacentTriangle m' r)) = Some T"
proof -
  let ?n = "length (triangles m)"
  let ?l = "adj_linked m T e"
  from assms have m': "m' = setFocusedTriangle ?l (Some ?n)" and res: "result = ?n"
    by (auto simp add: TM_createAdjacentTriangle_fresh)
  have v1: "vertices (triangles m' ! ?n) = vertices (triangles ?l ! ?n)"
    by (simp add: m' setFocusedTriangle_vertices)
  have v2: "vertices (triangles m' ! T) = vertices (triangles ?l ! T)"
    using assms(1) by (simp add: m' setFocusedTriangle_vertices)
  have "findAdjacentSide (triangles ?l ! ?n) (triangles ?l ! T) = Some r"
    using assms(4) findAdjacentSide_cong[OF v1 v2] by (simp add: res)
  then have "neighbors (triangles ?l ! ?n) r = Some T"
    using assms(1) by (simp add: adj_linked_reciprocal)
  then have "neighbors (triangles m' ! ?n) r = Some T"
    by (simp add: m' setFocusedTriangle_neighbors)
  moreover have "focusedTriangle m' = Some ?n" by (simp add: m')
  ultimately show ?thesis
    by (simp add: moveToAdjacentTriangle_def)
qed

theorem navigate_back_over_reciprocal_witness:
  "\<exists>m'. TM_createAdjacentTriangle TriangleManager_new 0 S0 = Some (m', 1) \<and>
         findAdjacentSide (triangles m' ! 1) (triangles m' ! 0) = Some S0 \<and>
         snd (moveToAdjacentTriangle m' S0) = Some 0 \<and>
         focusedTriangle (fst (moveToAdjacentTriangle m' S0)) = Some 0"
proof -
  from TM_adjacent_seed_S0 obtain m' where
    c: "TM_createAdjacentTriangle TriangleManager_new 0 S0 = Some (m', 1)" and
    v: "vertices (triangles m' ! 1) = vertices (triangles TriangleManager_new ! 0)"
       "vertices (triangles m' ! 0) = vertices (triangles TriangleManager_new ! 0)"
    by blast
  have l: "0 < length (triangles TriangleManager_new)" by (simp add: TM_new_length)
  have n: "neighbors (triangles TriangleManager_new ! 0) S0 = None" by (simp add: TM_new_links)
  have f: "findAdjacentSide (triangles m' ! 1) (triangles m' ! 0) = Some S0"
    using v by (rule findAdjacentSide_seed)
  from navigate_back_over_reciprocal[OF l n c f] c f show ?thesis by blast
qed

section \<open>Selection after a creation in the WebGL model (C10)\<close>

text \<open>
  \<open>triangleCount\<close> is the length of \<open>triangles\<close> in the initial state, and the creation
  functions keep it so.
\<close>

lemma creation_None_unchanged:
  assumes "createAdjacentTriangle s t e = (s', None) \<or>
           createInnerTriangle s t e = (s', None) \<or>
           createOuterTriangle s t e = (s', None)"
  shows "s' = s"
proof -
  have "fst (addTriangle s v p ps) = s" if "snd (addTriangle s v p ps) = None" for v p ps
    using that addTriangle_cases[of s v p ps "fst (addTriangle s v p ps)" "snd (addTriangle s v p ps)"]
    by (simp add: prod_eq_iff)
  then show ?thesis
    using assms
    by (auto simp add: createAdjacentTriangle_def createInnerTriangle_def createOuterTriangle_def
          Let_def split_def split: if_splits option.splits)
qed

lemma creation_keeps_count:
  assumes wf: "triangleCount s = length (gl_triangles s)"
    and op: "createAdjacentTriangle s t e = (s', r) \<or>
             createInnerTriangle s t e = (s', r) \<or>
             createOuterTriangle s t e = (s', r)"
  shows "triangleCount s' = length (gl_triangles s')"
proof (cases r)
  case None
  with op have "s' = s" using creation_None_unchanged by blast
  with wf show ?thesis by simp
next
  case (Some new)
  with op obtain s4 where "s' = selectTriangle s4 (int new)"
      "length (gl_triangles s4) = Suc (length (gl_triangles s))"
      "triangleCount s4 = Suc (triangleCount s)"
    using createAdjacentTriangle_Some createInnerTriangle_Some createOuterTriangle_Some by blast
  with wf show ?thesis by simp
qed

text \<open>
  C10.  In a state whose \<open>triangleCount\<close> is the length of \<open>triangles\<close>, when
  \<open>createAdjacentTriangle\<close>, \<open>createInnerTriangle\<close> or \<open>createOuterTriangle\<close> returns a triangle,
  the triangles with the \<open>selected\<close> flag set are exactly that one; \<open>selectedTriangleIndex\<close>
  and \<open>focusedTriangleIndex\<close> are its index.
\<close>

theorem creation_selects_only_new:
  assumes wf: "triangleCount s = length (gl_triangles s)"
    and op: "createAdjacentTriangle s t e = (s', Some new) \<or>
             createInnerTriangle s t e = (s', Some new) \<or>
             createOuterTriangle s t e = (s', Some new)"
  shows "selected_set s' = {new} \<and> selectedTriangleIndex s' = int new \<and>
         focusedTriangleIndex s' = int new"
proof -
  from op obtain s4 where s4: "s' = selectTriangle s4 (int new)"
      "length (gl_triangles s4) = Suc (length (gl_triangles s))"
      "triangleCount s4 = Suc (triangleCount s)" "new = length (gl_triangles s)"
      "focusedTriangleIndex s4 = int new"
    using createAdjacentTriangle_Some createInnerTriangle_Some createOuterTriangle_Some by blast
  have "triangleCount s4 = length (gl_triangles s4)" "new < length (gl_triangles s4)"
    using s4 wf by simp_all
  then show ?thesis
    using selectTriangle_selected[of s4 new] s4(1,5) by simp
qed

theorem creation_selects_only_new_witness:
  "triangleCount app_seed = length (gl_triangles app_seed) \<and>
   selected_set (fst (createAdjacentTriangle app_seed 0 S0)) = {1} \<and>
   selectedTriangleIndex (fst (createAdjacentTriangle app_seed 0 S0)) = 1"
proof -
  have wf: "triangleCount app_seed = length (gl_triangles app_seed)"
    by (simp add: app_seed_counts)
  have "createAdjacentTriangle app_seed 0 S0 = (fst (createAdjacentTriangle app_seed 0 S0), Some 1)"
    using createAdjacentTriangle_room(1)[of 0 app_seed S0]
    by (simp add: prod_eq_iff app_seed_counts MAX_TRIANGLES_def)
  then have "createAdjacentTriangle app_seed 0 S0 = (fst (createAdjacentTriangle app_seed 0 S0), Some 1) \<or>
             createInnerTriangle app_seed 0 S0 = (fst (createAdjacentTriangle app_seed 0 S0), Some 1) \<or>
             createOuterTriangle app_seed 0 S0 = (fst (createAdjacentTriangle app_seed 0 S0), Some 1)"
    by simp
  from creation_selects_only_new[OF wf this] wf show ?thesis by simp
qed

section \<open>The capacity of the mesh (C5)\<close>

lemma Triangle_new_innerTriangles [simp]: "innerTriangles (Triangle_new v p sd) = (\<lambda>_. None)"
  by (simp add: Triangle_new_def Let_def)

lemma Triangle_new_outerTriangles [simp]: "outerTriangles (Triangle_new v p sd) = (\<lambda>_. None)"
  by (simp add: Triangle_new_def Let_def)

lemma TM_createInnerTriangle_fresh:
  assumes "T < length (triangles m)" "innerTriangles (triangles m ! T) e = None"
  shows "\<exists>m'. TM_createInnerTriangle m T e = Some (m', length (triangles m)) \<and>
           length (triangles m') = Suc (length (triangles m)) \<and>
           vertices (triangles m' ! length (triangles m)) =
             makeEquilateral (getInnerTriangleVertices (triangles m ! T) e) \<and>
           innerTriangles (triangles m' ! length (triangles m)) = (\<lambda>_. None) \<and>
           innerTriangles (triangles m' ! T) e = Some (length (triangles m)) \<and>
           focusedTriangle m' = Some (length (triangles m))"
  using assms
  by (simp add: TM_createInnerTriangle_def TM_addTriangle_def Let_def setFocusedTriangle_nth
                update_at_nth nth_append)

lemma TM_createOuterTriangle_fresh:
  assumes "T < length (triangles m)" "outerTriangles (triangles m ! T) e = None"
  shows "\<exists>m'. TM_createOuterTriangle m T e = Some (m', length (triangles m)) \<and>
           length (triangles m') = Suc (length (triangles m)) \<and>
           vertices (triangles m' ! length (triangles m)) =
             makeEquilateral (getOuterTriangleVertices (triangles m ! T) e) \<and>
           outerTriangles (triangles m' ! T) e = Some (length (triangles m)) \<and>
           focusedTriangle m' = Some (length (triangles m))"
  using assms
  by (simp add: TM_createOuterTriangle_def TM_addTriangle_def Let_def setFocusedTriangle_nth
                update_at_nth nth_append)

lemma tm_grow_inv:
  "length (triangles (tm_grow n)) = Suc n \<and> innerTriangles (triangles (tm_grow n) ! n) S0 = None"
proof (induction n)
  case 0
  show ?case by (simp add: TM_new_length TM_new_links)
next
  case (Suc n)
  then have "n < length (triangles (tm_grow n))"
     "innerTriangles (triangles (tm_grow n) ! n) S0 = None" by simp_all
  from TM_createInnerTriangle_fresh[OF this] Suc show ?case by auto
qed

text \<open>
  C5, for the WebGL model.  Once \<open>triangleCount\<close> has reached \<open>MAX_TRIANGLES\<close> (10000),
  \<open>createAdjacentTriangle\<close>, \<open>createInnerTriangle\<close> and \<open>createOuterTriangle\<close> return \<open>null\<close>
  and leave the whole state as it is: no triangle is added, the count and the identifier
  counter stay the same, no link is set, focus and selection do not move.
\<close>

theorem capacity_rejects_creation:
  assumes "MAX_TRIANGLES \<le> triangleCount s"
  shows "createAdjacentTriangle s t e = (s, None) \<and>
         createInnerTriangle s t e = (s, None) \<and>
         createOuterTriangle s t e = (s, None)"
  using assms
  by (simp add: createAdjacentTriangle_def createInnerTriangle_def createOuterTriangle_def
                addTriangle_full Let_def)

theorem capacity_rejects_creation_witness:
  "MAX_TRIANGLES \<le> triangleCount (app_seed\<lparr>triangleCount := 10000\<rparr>) \<and>
   createAdjacentTriangle (app_seed\<lparr>triangleCount := 10000\<rparr>) 0 S0 = (app_seed\<lparr>triangleCount := 10000\<rparr>, None)"
  using capacity_rejects_creation[of "app_seed\<lparr>triangleCount := 10000\<rparr>" 0 S0]
  by (simp add: MAX_TRIANGLES_def)

text \<open>
  The Three.js manager has no ceiling.  \<open>tm_grow n\<close> is the manager after \<open>n\<close> inner
  derivations from the initial triangle, each on the newest triangle; with 10000 triangles
  in the store, one more \<open>createInnerTriangle\<close> adds triangle number 10001.
\<close>

theorem manager_has_no_capacity:
  "length (triangles (tm_grow 9999)) = 10000 \<and>
   map_option (\<lambda>(m', new). (length (triangles m'), new))
      (TM_createInnerTriangle (tm_grow 9999) 9999 S0) = Some (10001, 10000)"
proof -
  have l: "length (triangles (tm_grow 9999)) = 10000"
    using tm_grow_inv[of 9999] by simp
  have "9999 < length (triangles (tm_grow 9999))"
     "innerTriangles (triangles (tm_grow 9999) ! 9999) S0 = None"
    using tm_grow_inv[of 9999] by simp_all
  from TM_createInnerTriangle_fresh[OF this] l show ?thesis by auto
qed

section \<open>The constructor recomputes the third vertex (C9)\<close>

text \<open>
  constructor_recomputes_third_vertex.  The Three.js \<open>Triangle\<close> constructor ignores the third vertex it is given: two calls
  that agree on the first two vertices build the same triangle.  For finite coordinates the
  stored vertices are \<open>v0\<close>, \<open>v1\<close> and the midpoint of \<open>v0\<close> and \<open>v1\<close> plus the unit vector
  \<open>(-dy, dx, 0) / N\<close> (the edge turned by 90 degrees counterclockwise) times the height
  \<open>|v0v1| * sqrt 3 / 2\<close>; when \<open>dx = dy = 0\<close> the normal is the zero vector and the third
  vertex is the midpoint.
\<close>

theorem constructor_recomputes_third_vertex:
  fixes x0 y0 z0 x1 y1 z1 :: real
  defines "v0 \<equiv> Vector3 (Fin x0) (Fin y0) (Fin z0)" and "v1 \<equiv> Vector3 (Fin x1) (Fin y1) (Fin z1)"
  defines "dx \<equiv> x1 - x0" and "dy \<equiv> y1 - y0" and "dz \<equiv> z1 - z0"
  defines "N \<equiv> sqrt (dy * dy + dx * dx)"
  defines "h \<equiv> sqrt (dx * dx + dy * dy + dz * dz) * sqrt 3 / 2"
  shows "Triangle_new (a, b, w) par sd = Triangle_new (a, b, w') par sd \<and>
         vertices (Triangle_new (v0, v1, w) par sd) =
           (v0, v1,
            if N = 0 then Vector3 (Fin ((x0 + x1) / 2)) (Fin ((y0 + y1) / 2)) (Fin ((z0 + z1) / 2))
            else Vector3 (Fin ((x0 + x1) / 2 + (- dy / N) * h))
                         (Fin ((y0 + y1) / 2 + (dx / N) * h))
                         (Fin ((z0 + z1) / 2)))"
  unfolding assms
  using makeEquilateral_finite[of x0 y0 z0 x1 y1 z1 w] Triangle_new_indep[of a b w par sd w']
  by simp

theorem constructor_recomputes_third_vertex_witness:
  "vertices (Triangle_new (Vector3 (Fin 0) (Fin 0) (Fin 0), Vector3 (Fin 2) (Fin 0) (Fin 0),
                           Vector3 (Fin 5) (Fin 7) (Fin 0)) None None) =
     (Vector3 (Fin 0) (Fin 0) (Fin 0), Vector3 (Fin 2) (Fin 0) (Fin 0),
      Vector3 (Fin 1) (Fin (sqrt 3)) (Fin 0))"
  using constructor_recomputes_third_vertex[where ?x0.0 = 0 and ?y0.0 = 0 and ?z0.0 = 0 and ?x1.0 = 2 and ?y1.0 = 0 and ?z1.0 = 0
             and w = "Vector3 (Fin 5) (Fin 7) (Fin 0)" and par = None and sd = None]
  by simp

section \<open>Equilateral triangles (C3)\<close>

subsection \<open>The Three.js model\<close>

lemma apex_radicand:
  fixes dx dy s :: real
  assumes "s * s = 3 / 4"
  shows "(dx / 2 - dy * s) * (dx / 2 - dy * s) + (dy / 2 + dx * s) * (dy / 2 + dx * s)
         = dx * dx + dy * dy"
proof -
  have "(dx / 2 - dy * s) * (dx / 2 - dy * s) + (dy / 2 + dx * s) * (dy / 2 + dx * s)
        = (dx * dx + dy * dy) * (1 / 4 + s * s)"
    by (simp add: algebra_simps)
  then show ?thesis by (simp add: assms)
qed

lemma makeEquilateral_distances:
  assumes "in_plane v0" "in_plane v1" "makeEquilateral (v0, v1, w) = (a, b, c)"
  shows "in_plane a \<and> in_plane b \<and> in_plane c \<and>
         (\<exists>L. distanceTo a b = Fin L \<and> distanceTo b c = Fin L \<and> distanceTo c a = Fin L)"
proof -
  from assms(1) obtain x0 y0 where v0: "v0 = Vector3 (Fin x0) (Fin y0) (Fin 0)" by (rule in_planeE)
  from assms(2) obtain x1 y1 where v1: "v1 = Vector3 (Fin x1) (Fin y1) (Fin 0)" by (rule in_planeE)
  define dx dy where "dx = x1 - x0" and "dy = y1 - y0"
  define s :: real where "s = sqrt 3 / 2"
  have s: "s * s = 3 / 4" by (simp add: s_def)
  from assms(3) have abc: "a = v0" "b = v1"
      "c = Vector3 (Fin ((x0 + x1) / 2 - dy * s)) (Fin ((y0 + y1) / 2 + dx * s)) (Fin 0)"
    by (simp_all add: v0 v1 makeEquilateral_plane dx_def dy_def s_def)
  have ab: "distanceTo a b = Fin (sqrt (dx * dx + dy * dy))"
  proof -
    have "(x0 - x1) * (x0 - x1) + (y0 - y1) * (y0 - y1) = dx * dx + dy * dy"
      by (simp add: dx_def dy_def algebra_simps)
    then show ?thesis by (simp add: distanceTo_def abc v0 v1)
  qed
  have bc: "distanceTo b c = Fin (sqrt (dx * dx + dy * dy))"
  proof -
    have e: "(x1 - ((x0 + x1) / 2 - dy * s)) = dx / 2 + dy * s"
         "(y1 - ((y0 + y1) / 2 + dx * s)) = dy / 2 - dx * s"
      by (simp_all add: dx_def dy_def field_simps)
    have "(dx / 2 + dy * s) * (dx / 2 + dy * s) + (dy / 2 - dx * s) * (dy / 2 - dx * s)
                   = dx * dx + dy * dy"
      using apex_radicand[of "- s" dx dy] s by simp
    then have rad: "(x1 - ((x0 + x1) / 2 - dy * s)) * (x1 - ((x0 + x1) / 2 - dy * s)) +
        (y1 - ((y0 + y1) / 2 + dx * s)) * (y1 - ((y0 + y1) / 2 + dx * s)) = dx * dx + dy * dy"
      unfolding e .
    show ?thesis by (simp add: distanceTo_def abc v1 rad)
  qed
  have ca: "distanceTo c a = Fin (sqrt (dx * dx + dy * dy))"
  proof -
    have e: "((x0 + x1) / 2 - dy * s) - x0 = dx / 2 - dy * s"
         "((y0 + y1) / 2 + dx * s) - y0 = dy / 2 + dx * s"
      by (simp_all add: dx_def dy_def field_simps)
    have rad: "(((x0 + x1) / 2 - dy * s) - x0) * (((x0 + x1) / 2 - dy * s) - x0) +
        (((y0 + y1) / 2 + dx * s) - y0) * (((y0 + y1) / 2 + dx * s) - y0) = dx * dx + dy * dy"
      unfolding e using apex_radicand[OF s, of dx dy] .
    show ?thesis by (simp add: distanceTo_def abc v0 rad)
  qed
  from ab bc ca show ?thesis by (auto simp add: abc v0 v1)
qed

lemma withinTol_refl: "0 < eps \<Longrightarrow> withinTol (Fin eps) (Fin L) (Fin L)"
  by (simp add: withinTol_def)

lemma Triangle_new_wf_equilateral:
  assumes "in_plane (vertex verts S0)" "in_plane (vertex verts S1)" "0 < eps"
  shows "wf3 (Triangle_new verts par sd) \<and> equilateral3 (Fin eps) (vertices (Triangle_new verts par sd))"
proof -
  obtain v0 v1 w where verts: "verts = (v0, v1, w)" by (cases verts)
  obtain a b c where abc: "makeEquilateral (v0, v1, w) = (a, b, c)"
    by (cases "makeEquilateral (v0, v1, w)")
  from assms verts have "in_plane v0" "in_plane v1" by simp_all
  from makeEquilateral_distances[OF this abc] obtain L where
    p: "in_plane a" "in_plane b" "in_plane c" and
    d: "distanceTo a b = Fin L" "distanceTo b c = Fin L" "distanceTo c a = Fin L" by blast
  have eq: "equilateral3 (Fin eps) (a, b, c)"
    using d assms(3) by (simp add: equilateral3_def withinTol_refl)
  from p obtain ax ay bx "by" cx cy where
    "a = Vector3 (Fin ax) (Fin ay) (Fin 0)" "b = Vector3 (Fin bx) (Fin by) (Fin 0)"
    "c = Vector3 (Fin cx) (Fin cy) (Fin 0)"
    by (metis in_planeE)
  then have "wf3 (Triangle_new (v0, v1, w) par sd)"
    by (simp add: wf3_def Triangle_new_def abc Let_def)
  with eq show ?thesis by (simp add: verts abc)
qed

lemma update_at_geom:
  assumes "\<And>t. geom (f t) = geom t"
  shows "map geom (triangles (update_at r f m)) = map geom (triangles m)"
  by (simp add: update_at_def map_update assms list_update_same_conv)

lemma setFocusedTriangle_geom:
  "map geom (triangles (setFocusedTriangle m r)) = map geom (triangles m)"
  by (simp add: setFocusedTriangle_def setFocus_def Let_def update_at_geom geom_def
           split: option.splits)

lemma TM_createAdjacentTriangle_geom:
  assumes "TM_createAdjacentTriangle m T e = Some (m', n)"
  shows "map geom (triangles m') = map geom (triangles m) \<or>
         map geom (triangles m') = map geom (triangles m) @
           [geom (Triangle_new (getAdjacentTriangleVertices (triangles m ! T) e) (Some T) (Some e))]"
proof -
  from assms have T: "T < length (triangles m)"
    by (simp add: TM_createAdjacentTriangle_def split: if_splits)
  show ?thesis
  proof (cases "neighbors (triangles m ! T) e")
    case (Some x)
    with T assms have "m' = setFocusedTriangle m (Some x)"
      by (auto simp add: TM_createAdjacentTriangle_reuse)
    then show ?thesis by (simp add: setFocusedTriangle_geom)
  next
    case None
    with T assms have "m' = setFocusedTriangle (adj_linked m T e) (Some (length (triangles m)))"
      by (auto simp add: TM_createAdjacentTriangle_fresh)
    then show ?thesis
      by (simp add: setFocusedTriangle_geom adj_linked_def Let_def update_at_geom geom_def
               split: option.splits)
  qed
qed

lemma TM_createInnerTriangle_geom:
  assumes "TM_createInnerTriangle m T e = Some (m', n)"
  shows "map geom (triangles m') = map geom (triangles m) \<or>
         map geom (triangles m') = map geom (triangles m) @
           [geom (Triangle_new (getInnerTriangleVertices (triangles m ! T) e) (Some T) (Some e))]"
  using assms
  by (auto simp add: TM_createInnerTriangle_def TM_addTriangle_def Let_def
        setFocusedTriangle_geom update_at_geom geom_def split: if_splits option.splits)

lemma TM_createOuterTriangle_geom:
  assumes "TM_createOuterTriangle m T e = Some (m', n)"
  shows "map geom (triangles m') = map geom (triangles m) \<or>
         map geom (triangles m') = map geom (triangles m) @
           [geom (Triangle_new (getOuterTriangleVertices (triangles m ! T) e) (Some T) (Some e))]"
  using assms
  by (auto simp add: TM_createOuterTriangle_def TM_addTriangle_def Let_def
        setFocusedTriangle_geom update_at_geom geom_def split: if_splits option.splits)

lemma tm_equilateral_geom:
  "tm_equilateral eps m =
     list_all (\<lambda>g. in_plane (vertex (fst g) S0) \<and> in_plane (vertex (fst g) S1) \<and>
                   in_plane (vertex (fst g) S2) \<and> in_plane (snd g) \<and> equilateral3 eps (fst g))
              (map geom (triangles m))"
  by (simp add: tm_equilateral_def list_all_iff wf3_def geom_def)

lemma tm_equilateral_step:
  assumes inv: "tm_equilateral (Fin eps) m" and T: "T < length (triangles m)" and eps: "0 < eps"
    and g: "map geom (triangles m') = map geom (triangles m) \<or>
            map geom (triangles m') = map geom (triangles m) @ [geom (Triangle_new verts par sd)]"
    and v: "wf3 (triangles m ! T) \<Longrightarrow> in_plane (vertex verts S0) \<and> in_plane (vertex verts S1)"
  shows "tm_equilateral (Fin eps) m'"
proof -
  from inv T have wfT: "wf3 (triangles m ! T)"
    by (simp add: tm_equilateral_def list_all_length)
  from v[OF wfT] have "wf3 (Triangle_new verts par sd) \<and>
        equilateral3 (Fin eps) (vertices (Triangle_new verts par sd))"
    using eps Triangle_new_wf_equilateral[of verts eps par sd] by blast
  then have new: "in_plane (vertex (fst (geom (Triangle_new verts par sd))) S0) \<and>
      in_plane (vertex (fst (geom (Triangle_new verts par sd))) S1) \<and>
      in_plane (vertex (fst (geom (Triangle_new verts par sd))) S2) \<and>
      in_plane (snd (geom (Triangle_new verts par sd))) \<and>
      equilateral3 (Fin eps) (fst (geom (Triangle_new verts par sd)))"
    by (simp add: geom_def wf3_def)
  from g show ?thesis
  proof
    assume "map geom (triangles m') = map geom (triangles m)"
    with inv show ?thesis by (simp add: tm_equilateral_geom)
  next
    assume "map geom (triangles m') = map geom (triangles m) @ [geom (Triangle_new verts par sd)]"
    with inv new show ?thesis by (simp add: tm_equilateral_geom)
  qed
qed

lemma vertex_in_plane:
  "wf3 t \<Longrightarrow> in_plane (vertex (vertices t) sd)"
  by (cases sd) (simp_all add: wf3_def)

lemma TM_create_preserves_equilateral:
  assumes "tm_equilateral (Fin eps) m" "0 < eps"
  shows "TM_createAdjacentTriangle m T e = Some (m', n) \<Longrightarrow> tm_equilateral (Fin eps) m'"
    and "TM_createInnerTriangle m T e = Some (m', n) \<Longrightarrow> tm_equilateral (Fin eps) m'"
    and "TM_createOuterTriangle m T e = Some (m', n) \<Longrightarrow> tm_equilateral (Fin eps) m'"
proof -
  assume c: "TM_createAdjacentTriangle m T e = Some (m', n)"
  then have T: "T < length (triangles m)"
    by (simp add: TM_createAdjacentTriangle_def split: if_splits)
  show "tm_equilateral (Fin eps) m'"
  proof (rule tm_equilateral_step[OF assms(1) T assms(2) TM_createAdjacentTriangle_geom[OF c]])
    assume "wf3 (triangles m ! T)"
    then show "in_plane (vertex (getAdjacentTriangleVertices (triangles m ! T) e) S0) \<and>
               in_plane (vertex (getAdjacentTriangleVertices (triangles m ! T) e) S1)"
      by (cases e) (simp_all add: getAdjacentTriangleVertices_def Let_def vertex_in_plane)
  qed
next
  assume c: "TM_createInnerTriangle m T e = Some (m', n)"
  then have T: "T < length (triangles m)"
    by (simp add: TM_createInnerTriangle_def split: if_splits)
  show "tm_equilateral (Fin eps) m'"
  proof (rule tm_equilateral_step[OF assms(1) T assms(2) TM_createInnerTriangle_geom[OF c]])
    assume "wf3 (triangles m ! T)"
    then show "in_plane (vertex (getInnerTriangleVertices (triangles m ! T) e) S0) \<and>
               in_plane (vertex (getInnerTriangleVertices (triangles m ! T) e) S1)"
      by (simp add: getInnerTriangleVertices_def Let_def vertex_in_plane) (simp add: wf3_def)
  qed
next
  assume c: "TM_createOuterTriangle m T e = Some (m', n)"
  then have T: "T < length (triangles m)"
    by (simp add: TM_createOuterTriangle_def split: if_splits)
  show "tm_equilateral (Fin eps) m'"
  proof (rule tm_equilateral_step[OF assms(1) T assms(2) TM_createOuterTriangle_geom[OF c]])
    assume "wf3 (triangles m ! T)"
    then show "in_plane (vertex (getOuterTriangleVertices (triangles m ! T) e) S0) \<and>
               in_plane (vertex (getOuterTriangleVertices (triangles m ! T) e) S1)"
      by (simp add: getOuterTriangleVertices_def Let_def vertex_in_plane)
  qed
qed

lemma TM_new_equilateral:
  assumes "0 < eps"
  shows "tm_equilateral (Fin eps) TriangleManager_new"
proof -
  have "map geom (triangles TriangleManager_new) =
        [geom (Triangle_new (Vector3 (Fin (- 3 / 4)) (Fin (- sqrt 3 / 4)) (Fin 0),
                             Vector3 (Fin (3 / 4)) (Fin (- sqrt 3 / 4)) (Fin 0),
                             Vector3 (Fin 0) (Fin (sqrt 3 / 2)) (Fin 0)) None None)]"
    by (simp add: TriangleManager_new_def TM_createInitialTriangle_def TM_addTriangle_def Let_def
          setFocusedTriangle_geom)
  moreover have "wf3 (Triangle_new (Vector3 (Fin (- 3 / 4)) (Fin (- sqrt 3 / 4)) (Fin 0),
                             Vector3 (Fin (3 / 4)) (Fin (- sqrt 3 / 4)) (Fin 0),
                             Vector3 (Fin 0) (Fin (sqrt 3 / 2)) (Fin 0)) None None) \<and>
     equilateral3 (Fin eps) (vertices (Triangle_new (Vector3 (Fin (- 3 / 4)) (Fin (- sqrt 3 / 4)) (Fin 0),
                             Vector3 (Fin (3 / 4)) (Fin (- sqrt 3 / 4)) (Fin 0),
                             Vector3 (Fin 0) (Fin (sqrt 3 / 2)) (Fin 0)) None None))"
    using assms by (intro Triangle_new_wf_equilateral) simp_all
  ultimately show ?thesis
    by (simp add: tm_equilateral_geom geom_def wf3_def)
qed

subsection \<open>The WebGL model\<close>

text \<open>The range of a double on the numbers that occur in the proofs.\<close>

lemma over_big: "(2::real) ^ 43 < 2 ^ 1024 - 2 ^ 970"
proof -
  have "(2::real) ^ 1024 = 2 ^ 970 * 2 ^ 54" by (simp add: power_add[symmetric])
  then have "(2::real) ^ 1024 - 2 ^ 970 = 2 ^ 970 * (2 ^ 54 - 1)" by (simp add: algebra_simps)
  moreover have "(2::real) ^ 970 * 1 \<le> 2 ^ 970 * (2 ^ 54 - 1)" by (intro mult_left_mono) simp_all
  moreover have "(2::real) ^ 43 < 2 ^ 970" by simp
  ultimately show ?thesis by simp
qed

lemma js_range_zero [simp]: "js_range (Fin 0) = Fin 0"
  using over_big by (simp add: js_range_def)

lemma js_range_special [simp]: "js_range NaN = NaN" "js_range PInf = PInf" "js_range NInf = NInf"
  by (simp_all add: js_range_def)

lemma js_range_cases:
  assumes "\<bar>r\<bar> \<le> 2 ^ 43"
  shows "js_range (Fin r) = Fin r \<or> js_range (Fin r) = Fin 0"
  using assms over_big by (simp add: js_range_def)

lemma js_range_moderate:
  assumes "1 / 2 ^ 43 \<le> \<bar>r\<bar>" "\<bar>r\<bar> \<le> 2 ^ 43"
  shows "js_range (Fin r) = Fin r"
proof -
  have "(1::real) / 2 ^ 1075 < 1 / 2 ^ 43" by (simp add: field_simps)
  then show ?thesis using assms over_big by (simp add: js_range_def)
qed

lemma js_range_underflow:
  assumes "\<bar>r\<bar> \<le> 1 / 2 ^ 1075"
  shows "js_range (Fin r) = Fin 0"
proof -
  have "(1::real) / 2 ^ 1075 \<le> 1" by simp
  then have "\<bar>r\<bar> < 2 ^ 43" using assms by simp
  then show ?thesis using assms over_big by (simp add: js_range_def)
qed

lemma js_range_sq:
  assumes "\<bar>a\<bar> \<le> 2 ^ 21"
  shows "\<exists>r. js_range (Fin (a * a)) = Fin r \<and> 0 \<le> r \<and> r \<le> 2 ^ 42"
proof -
  have "\<bar>a\<bar> * \<bar>a\<bar> \<le> 2 ^ 21 * 2 ^ 21"
    using assms by (intro mult_mono) simp_all
  then have b: "a * a \<le> 2 ^ 42" by (simp add: abs_mult_self_eq)
  have n: "0 \<le> a * a" by simp
  from b n have "\<bar>a * a\<bar> \<le> 2 ^ 43" by simp
  from js_range_cases[OF this] b n show ?thesis by auto
qed

lemma js_norm2_bounded:
  assumes "\<bar>a\<bar> \<le> 2 ^ 21" "\<bar>b\<bar> \<le> 2 ^ 21"
  shows "\<exists>l. js_norm2 (Fin a) (Fin b) = Fin l"
proof -
  from js_range_sq[OF assms(1)] obtain p where p: "js_range (Fin (a * a)) = Fin p" "0 \<le> p" "p \<le> 2 ^ 42"
    by blast
  from js_range_sq[OF assms(2)] obtain q where q: "js_range (Fin (b * b)) = Fin q" "0 \<le> q" "q \<le> 2 ^ 42"
    by blast
  have "\<bar>p + q\<bar> \<le> 2 ^ 43" using p q by simp
  from js_range_cases[OF this] have "js_range (Fin (p + q)) = Fin (p + q) \<or> js_range (Fin (p + q)) = Fin 0" .
  then show ?thesis using p q by (auto simp add: js_norm2_def)
qed

lemma plus_jsnum_commute: "a + b = b + (a::jsnum)"
  by (cases a; cases b) simp_all

lemma js_norm2_swap: "js_norm2 (- Fin b) (Fin a) = js_norm2 (Fin a) (Fin b)"
  by (simp add: js_norm2_def plus_jsnum_commute[of "js_range (Fin (b * b))"])

lemma js_norm2_underflow:
  assumes "\<bar>a\<bar> \<le> 1 / 2 ^ 538" "\<bar>b\<bar> \<le> 1 / 2 ^ 538"
  shows "js_norm2 (Fin a) (Fin b) = Fin 0"
proof -
  have sq: "\<bar>c * c\<bar> \<le> 1 / 2 ^ 1075" if "\<bar>c\<bar> \<le> 1 / 2 ^ 538" for c :: real
  proof -
    have "\<bar>c\<bar> * \<bar>c\<bar> \<le> (1 / 2 ^ 538) * (1 / 2 ^ 538)"
      using that by (intro mult_mono) simp_all
    also have "\<dots> = (1::real) / 2 ^ 1076" by (simp add: power_add[symmetric])
    also have "\<dots> \<le> 1 / 2 ^ 1075" by (simp add: field_simps)
    finally show ?thesis by (simp add: abs_mult)
  qed
  show ?thesis
    by (simp add: js_norm2_def js_range_underflow[OF sq[OF assms(1)]] js_range_underflow[OF sq[OF assms(2)]])
qed

lemma js_norm2_seed: "js_norm2 (Fin (3 / 10)) (Fin 0) = Fin (sqrt (9 / 100))"
proof -
  have "js_range (Fin (9 / 100)) = Fin (9 / 100)"
    by (rule js_range_moderate) simp_all
  then show ?thesis by (simp add: js_norm2_def)
qed

lemma coord_boundedE:
  assumes "coord_bounded a" obtains r where "a = Fin r" "\<bar>r\<bar> \<le> 2 ^ 20"
  using assms by (cases a) (simp_all add: coord_bounded_def)

lemma measurable_edgeE:
  assumes "measurable_edge t e"
  obtains x1 y1 x2 y2 l where "getSide t e = (Fin x1, Fin y1, Fin x2, Fin y2)"
    "js_norm2 (Fin (x2 - x1)) (Fin (y2 - y1)) = Fin l" "l \<noteq> 0"
proof -
  obtain a b c d where g: "getSide t e = (a, b, c, d)" by (cases "getSide t e")
  from assms g have cb: "coord_bounded a" "coord_bounded b" "coord_bounded c" "coord_bounded d"
    and nz: "js_norm2 (c - a) (d - b) \<noteq> Fin 0"
    by (simp_all add: measurable_edge_def)
  from cb obtain x1 y1 x2 y2 where v: "a = Fin x1" "b = Fin y1" "c = Fin x2" "d = Fin y2"
    and bd: "\<bar>x1\<bar> \<le> 2 ^ 20" "\<bar>y1\<bar> \<le> 2 ^ 20" "\<bar>x2\<bar> \<le> 2 ^ 20" "\<bar>y2\<bar> \<le> 2 ^ 20"
    by (metis coord_boundedE)
  have "\<bar>x2 - x1\<bar> \<le> 2 ^ 21" "\<bar>y2 - y1\<bar> \<le> 2 ^ 21" using bd by simp_all
  from js_norm2_bounded[OF this] obtain l where l: "js_norm2 (Fin (x2 - x1)) (Fin (y2 - y1)) = Fin l"
    by blast
  with nz v have "l \<noteq> 0" by (auto simp add: minus_jsnum_def)
  then show ?thesis using that g v l by simp
qed

lemma not_neg_sq_sum: "\<not> (dx * dx + dy * dy < (0::real))"
  by (simp add: not_less)

text \<open>
  On a side whose computed length is finite and not 0 the third vertex is the midpoint moved
  by the edge vector turned by 90 degrees and scaled by \<open>sqrt 3 / 2\<close>, to one side or the
  other: the computed length cancels.
\<close>

lemma adjacentVertices_Fin:
  assumes g: "getSide t e = (Fin x1, Fin y1, Fin x2, Fin y2)"
    and l: "js_norm2 (Fin (x2 - x1)) (Fin (y2 - y1)) = Fin len" and len: "len \<noteq> 0"
  shows "\<exists>s. s * s = 3 / 4 \<and> adjacentVertices t e =
           (Fin x1, Fin y1, Fin x2, Fin y2,
            Fin ((x1 + x2) / 2 + (y2 - y1) * s),
            Fin ((y1 + y2) / 2 - (x2 - x1) * s))"
proof -
  define dx dy where "dx = x2 - x1" and "dy = y2 - y1"
  define dot where "dot = Fin (dy / len) * (fst (tri_center t) - Fin ((x1 + x2) / 2)) +
                          Fin (- dx / len) * (snd (tri_center t) - Fin ((y1 + y2) / 2))"
  define \<sigma> :: real where "\<sigma> = (if Fin 0 < dot then - 1 else 1)"
  define s where "s = \<sigma> * (sqrt 3 / 2)"
  have l': "js_norm2 (Fin x2 - Fin x1) (Fin y2 - Fin y1) = Fin len"
    using l by (simp add: minus_jsnum_def)
  have d: "(Fin y2 - Fin y1) / Fin len = Fin (dy / len)" "- (Fin x2 - Fin x1) / Fin len = Fin (- dx / len)"
          "(Fin x1 + Fin x2) / Fin 2 = Fin ((x1 + x2) / 2)" "(Fin y1 + Fin y2) / Fin 2 = Fin ((y1 + y2) / 2)"
          "Fin len * Fin (sqrt 3) / Fin 2 = Fin (len * sqrt 3 / 2)"
    using len by (simp_all add: minus_jsnum_def dx_def dy_def)
  have 0: "adjacentVertices t e =
           (Fin x1, Fin y1, Fin x2, Fin y2,
            Fin ((x1 + x2) / 2) + (if Fin 0 < dot then - Fin (dy / len) else Fin (dy / len)) * Fin (len * sqrt 3 / 2),
            Fin ((y1 + y2) / 2) + (if Fin 0 < dot then - Fin (- dx / len) else Fin (- dx / len)) * Fin (len * sqrt 3 / 2))"
    unfolding adjacentVertices_def g Let_def prod.case l' d dot_def ..
  have 1: "adjacentVertices t e =
           (Fin x1, Fin y1, Fin x2, Fin y2,
            Fin ((x1 + x2) / 2 + (\<sigma> * (dy / len)) * (len * sqrt 3 / 2)),
            Fin ((y1 + y2) / 2 + (\<sigma> * (- dx / len)) * (len * sqrt 3 / 2)))"
    unfolding 0 \<sigma>_def by simp
  have 2: "(x1 + x2) / 2 + (\<sigma> * (dy / len)) * (len * sqrt 3 / 2) = (x1 + x2) / 2 + dy * s"
       "(y1 + y2) / 2 + (\<sigma> * (- dx / len)) * (len * sqrt 3 / 2) = (y1 + y2) / 2 - dx * s"
    using len by (simp_all add: s_def)
  have "adjacentVertices t e =
           (Fin x1, Fin y1, Fin x2, Fin y2, Fin ((x1 + x2) / 2 + dy * s), Fin ((y1 + y2) / 2 - dx * s))"
    unfolding 1 2 ..
  moreover have "s * s = 3 / 4" by (simp add: s_def \<sigma>_def)
  ultimately show ?thesis unfolding dx_def dy_def by blast
qed

lemma dist2_Fin [simp]:
  "dist2 (Fin a, Fin b) (Fin c, Fin d) = Fin (sqrt ((a - c) * (a - c) + (b - d) * (b - d)))"
  by (simp add: dist2_def not_neg_sq_sum)

lemma apex_equilateral6:
  fixes x1 y1 x2 y2 s :: real
  assumes s: "s * s = 3 / 4" and eps: "0 < eps"
  shows "equilateral6 (Fin eps)
           (Fin x1, Fin y1, Fin x2, Fin y2,
            Fin ((x1 + x2) / 2 + (y2 - y1) * s),
            Fin ((y1 + y2) / 2 - (x2 - x1) * s))"
proof -
  define dx dy where "dx = x2 - x1" and "dy = y2 - y1"
  have s': "(- s) * (- s) = 3 / 4"
    using s by simp
  define x3 y3 where "x3 = (x1 + x2) / 2 + (y2 - y1) * s"
    and "y3 = (y1 + y2) / 2 - (x2 - x1) * s"
  have r12: "(x1 - x2) * (x1 - x2) + (y1 - y2) * (y1 - y2) = dx * dx + dy * dy"
    by (simp add: dx_def dy_def algebra_simps)
  have e23: "x2 - x3 = dx / 2 - dy * s" "y2 - y3 = dy / 2 + dx * s"
    by (simp_all add: x3_def y3_def dx_def dy_def field_simps)
  have r23: "(x2 - x3) * (x2 - x3) + (y2 - y3) * (y2 - y3) = dx * dx + dy * dy"
    unfolding e23 using apex_radicand[OF s, of dx dy] .
  have e31: "x3 - x1 = dx / 2 - dy * (- s)" "y3 - y1 = dy / 2 + dx * (- s)"
    by (simp_all add: x3_def y3_def dx_def dy_def field_simps)
  have r31: "(x3 - x1) * (x3 - x1) + (y3 - y1) * (y3 - y1) = dx * dx + dy * dy"
    unfolding e31 using apex_radicand[OF s', of dx dy] .
  have "equilateral6 (Fin eps) (Fin x1, Fin y1, Fin x2, Fin y2, Fin x3, Fin y3)"
    using eps by (simp add: equilateral6_def r12 r23 r31 withinTol_def)
  then show ?thesis by (simp add: x3_def y3_def)
qed

lemma adjacentVertices_equilateral6:
  assumes "measurable_edge t e" "0 < eps"
  shows "equilateral6 (Fin eps) (adjacentVertices t e)"
proof -
  from assms(1) obtain x1 y1 x2 y2 l where
    g: "getSide t e = (Fin x1, Fin y1, Fin x2, Fin y2)"
    and l: "js_norm2 (Fin (x2 - x1)) (Fin (y2 - y1)) = Fin l" "l \<noteq> 0"
    by (rule measurable_edgeE)
  from adjacentVertices_Fin[OF g l] obtain s where
    "s * s = 3 / 4" "adjacentVertices t e =
           (Fin x1, Fin y1, Fin x2, Fin y2,
            Fin ((x1 + x2) / 2 + (y2 - y1) * s),
            Fin ((y1 + y2) / 2 - (x2 - x1) * s))" by blast
  then show ?thesis using apex_equilateral6[of s eps x1 y1 x2 y2] assms(2) by simp
qed

lemma outerVertices_Fin:
  assumes g: "getSide t e = (Fin x1, Fin y1, Fin x2, Fin y2)"
    and l: "js_norm2 (Fin (x2 - x1)) (Fin (y2 - y1)) = Fin L" and L: "L \<noteq> 0"
  shows "outerVertices t e =
           (Fin x1, Fin y1, Fin x2, Fin y2,
            Fin ((x1 + x2) / 2 + (y2 - y1) * (- (sqrt 3 / 2))),
            Fin ((y1 + y2) / 2 - (x2 - x1) * (- (sqrt 3 / 2))))"
proof -
  define dx dy where "dx = x2 - x1" and "dy = y2 - y1"
  have l1: "js_norm2 (Fin x2 - Fin x1) (Fin y2 - Fin y1) = Fin L"
    using l by (simp add: minus_jsnum_def)
  have l2: "js_norm2 (- (Fin y2 - Fin y1)) (Fin x2 - Fin x1) = Fin L"
    using l js_norm2_swap[of "y2 - y1" "x2 - x1"] by (simp add: minus_jsnum_def)
  have d: "- (Fin y2 - Fin y1) / Fin L = Fin (- dy / L)" "(Fin x2 - Fin x1) / Fin L = Fin (dx / L)"
          "(Fin x1 + Fin x2) / Fin 2 = Fin ((x1 + x2) / 2)" "(Fin y1 + Fin y2) / Fin 2 = Fin ((y1 + y2) / 2)"
          "Fin L * Fin (sqrt 3) / Fin 2 = Fin (L * sqrt 3 / 2)"
    using L by (simp_all add: minus_jsnum_def dx_def dy_def)
  have 1: "outerVertices t e =
           (Fin x1, Fin y1, Fin x2, Fin y2,
            Fin ((x1 + x2) / 2 + (- dy / L) * (L * sqrt 3 / 2)),
            Fin ((y1 + y2) / 2 + (dx / L) * (L * sqrt 3 / 2)))"
    unfolding outerVertices_def g Let_def prod.case l1 l2 d by simp
  have 2: "(x1 + x2) / 2 + (- dy / L) * (L * sqrt 3 / 2) = (x1 + x2) / 2 + dy * (- (sqrt 3 / 2))"
       "(y1 + y2) / 2 + (dx / L) * (L * sqrt 3 / 2) = (y1 + y2) / 2 - dx * (- (sqrt 3 / 2))"
    using L by simp_all
  have "outerVertices t e =
           (Fin x1, Fin y1, Fin x2, Fin y2,
            Fin ((x1 + x2) / 2 + dy * (- (sqrt 3 / 2))), Fin ((y1 + y2) / 2 - dx * (- (sqrt 3 / 2))))"
    unfolding 1 2 ..
  then show ?thesis unfolding dx_def dy_def .
qed

lemma outerVertices_equilateral6:
  assumes "measurable_edge t e" "0 < eps"
  shows "equilateral6 (Fin eps) (outerVertices t e)"
proof -
  from assms(1) obtain x1 y1 x2 y2 l where
    g: "getSide t e = (Fin x1, Fin y1, Fin x2, Fin y2)"
    and l: "js_norm2 (Fin (x2 - x1)) (Fin (y2 - y1)) = Fin l" "l \<noteq> 0"
    by (rule measurable_edgeE)
  have "(- (sqrt 3 / 2)) * (- (sqrt 3 / 2)) = (3 / 4 :: real)" by simp
  from apex_equilateral6[OF this assms(2)] show ?thesis
    unfolding outerVertices_Fin[OF g l] .
qed

text \<open>
  On a side so short that both squares underflow the computed length is 0, and the third
  vertex is \<open>(NaN, NaN)\<close> although the endpoints may differ.
\<close>

lemma adjacentVertices_underflow:
  assumes g: "getSide t e = (Fin x1, Fin y1, Fin x2, Fin y2)"
    and "\<bar>x2 - x1\<bar> \<le> 1 / 2 ^ 538" "\<bar>y2 - y1\<bar> \<le> 1 / 2 ^ 538"
  shows "adjacentVertices t e = (Fin x1, Fin y1, Fin x2, Fin y2, NaN, NaN)"
proof -
  have l: "js_norm2 (Fin x2 - Fin x1) (Fin y2 - Fin y1) = Fin 0"
    using js_norm2_underflow[OF assms(2,3)] by (simp add: minus_jsnum_def)
  have d: "Fin 0 * Fin (sqrt 3) / Fin 2 = Fin 0" by simp
  have m: "(Fin x1 + Fin x2) / Fin 2 = Fin ((x1 + x2) / 2)" "(Fin y1 + Fin y2) / Fin 2 = Fin ((y1 + y2) / 2)"
    by simp_all
  have n: "(if c then - (Fin a / Fin 0) else Fin a / Fin 0) * Fin 0 = NaN" for c a
    by simp
  have n': "(if c then - (- Fin a / Fin 0) else - Fin a / Fin 0) * Fin 0 = NaN" for c a
    by simp
  show ?thesis
    unfolding adjacentVertices_def g Let_def prod.case l d m
    by (simp add: minus_jsnum_def n n')
qed

lemma outerVertices_underflow:
  assumes g: "getSide t e = (Fin x1, Fin y1, Fin x2, Fin y2)"
    and "\<bar>x2 - x1\<bar> \<le> 1 / 2 ^ 538" "\<bar>y2 - y1\<bar> \<le> 1 / 2 ^ 538"
  shows "outerVertices t e = (Fin x1, Fin y1, Fin x2, Fin y2, NaN, NaN)"
proof -
  have l: "js_norm2 (Fin x2 - Fin x1) (Fin y2 - Fin y1) = Fin 0"
    using js_norm2_underflow[OF assms(2,3)] by (simp add: minus_jsnum_def)
  have l2: "js_norm2 (- (Fin y2 - Fin y1)) (Fin x2 - Fin x1) = Fin 0"
    using js_norm2_underflow[OF assms(2,3)] js_norm2_swap[of "y2 - y1" "x2 - x1"]
    by (simp add: minus_jsnum_def)
  show ?thesis
    unfolding outerVertices_def g Let_def prod.case l l2
    by (simp add: minus_jsnum_def)
qed

text \<open>A larger tolerance accepts what a smaller one accepts.\<close>

lemma less_Fin_mono: "x < Fin a \<Longrightarrow> a \<le> b \<Longrightarrow> x < Fin b"
  by (cases x) simp_all

lemma equilateral6_mono:
  assumes "equilateral6 (Fin a) vs" "a \<le> b"
  shows "equilateral6 (Fin b) vs"
  using assms
  by (auto simp add: equilateral6_def withinTol_def Let_def split: prod.splits intro: less_Fin_mono)

lemma gl_update_at_vertices:
  assumes "\<And>t. tri_vertices (f t) = tri_vertices t"
  shows "map tri_vertices (gl_triangles (gl_update_at r f s)) = map tri_vertices (gl_triangles s)"
  by (simp add: gl_update_at_def map_update assms list_update_same_conv)

lemma focusTriangle_vertices [simp]:
  "map tri_vertices (gl_triangles (focusTriangle s i)) = map tri_vertices (gl_triangles s)"
  by (simp add: focusTriangle_def Let_def gl_update_at_vertices)

lemma clearSelected_vertices [simp]:
  "map tri_vertices (gl_triangles (clearSelected s)) = map tri_vertices (gl_triangles s)"
proof -
  have "map tri_vertices (map (\<lambda>t. if tri_selected t then t\<lparr>tri_selected := False\<rparr> else t) xs)
        = map tri_vertices xs" for xs
    by (induction xs) simp_all
  then have "map tri_vertices (gl_triangles (clearSelected s)) =
        map tri_vertices (take (triangleCount s) (gl_triangles s)) @
        map tri_vertices (drop (triangleCount s) (gl_triangles s))"
    by (simp add: clearSelected_def)
  then show ?thesis by (simp add: take_map[symmetric] drop_map[symmetric])
qed

lemma selectTriangle_vertices [simp]:
  "map tri_vertices (gl_triangles (selectTriangle s i)) = map tri_vertices (gl_triangles s)"
  by (simp add: selectTriangle_def Let_def gl_update_at_vertices)

lemma setNeighbor_vertices [simp]:
  "map tri_vertices (gl_triangles (setNeighbor r sd t s)) = map tri_vertices (gl_triangles s)"
  by (simp add: setNeighbor_def gl_update_at_vertices)

lemma setChild_vertices [simp]:
  "map tri_vertices (gl_triangles (setChild r sd t s)) = map tri_vertices (gl_triangles s)"
  by (simp add: setChild_def gl_update_at_vertices)

lemma setInnerTriangle_vertices [simp]:
  "map tri_vertices (gl_triangles (setInnerTriangle r sd t s)) = map tri_vertices (gl_triangles s)"
  by (simp add: setInnerTriangle_def gl_update_at_vertices)

lemma setOuterTriangle_vertices [simp]:
  "map tri_vertices (gl_triangles (setOuterTriangle r sd t s)) = map tri_vertices (gl_triangles s)"
  by (simp add: setOuterTriangle_def gl_update_at_vertices)

lemma GLTriangle_new_vertices [simp]: "tri_vertices (GLTriangle_new i v p ps) = v"
  by (simp add: GLTriangle_new_def split: prod.splits)

lemma addTriangle_vertices:
  assumes "addTriangle s v p ps = (s', Some n)"
  shows "map tri_vertices (gl_triangles s') = map tri_vertices (gl_triangles s) @ [v]"
  using assms
  by (auto simp add: addTriangle_def Let_def split: if_splits option.splits)

lemma createAdjacentTriangle_vertices:
  assumes "createAdjacentTriangle s t e = (s', Some new)"
  shows "map tri_vertices (gl_triangles s') =
         map tri_vertices (gl_triangles s) @ [adjacentVertices (gl_triangles s ! t) e]"
proof -
  from assms have t: "t < length (gl_triangles s)"
    by (auto simp add: createAdjacentTriangle_def split: if_splits)
  obtain s1 r where
    a: "addTriangle s (adjacentVertices (gl_triangles s ! t) e) (Some t) (Some e) = (s1, r)"
    by (cases "addTriangle s (adjacentVertices (gl_triangles s ! t) e) (Some t) (Some e)")
  from assms t a have r: "r = Some new"
    by (auto simp add: createAdjacentTriangle_def Let_def split: option.splits)
  from a r have v: "map tri_vertices (gl_triangles s1) =
      map tri_vertices (gl_triangles s) @ [adjacentVertices (gl_triangles s ! t) e]"
    by (simp add: addTriangle_vertices)
  from assms t a r show ?thesis
    by (auto simp add: createAdjacentTriangle_def Let_def v split: option.splits)
qed

lemma createInnerTriangle_vertices:
  assumes "createInnerTriangle s t e = (s', Some new)"
  shows "map tri_vertices (gl_triangles s') =
         map tri_vertices (gl_triangles s) @ [innerVertices (gl_triangles s ! t) e]"
proof -
  from assms have t: "t < length (gl_triangles s)"
    by (auto simp add: createInnerTriangle_def split: if_splits)
  obtain s1 r where
    a: "addTriangle s (innerVertices (gl_triangles s ! t) e) (Some t) (Some e) = (s1, r)"
    by (cases "addTriangle s (innerVertices (gl_triangles s ! t) e) (Some t) (Some e)")
  from assms t a have r: "r = Some new"
    by (auto simp add: createInnerTriangle_def Let_def split: option.splits)
  from a r have v: "map tri_vertices (gl_triangles s1) =
      map tri_vertices (gl_triangles s) @ [innerVertices (gl_triangles s ! t) e]"
    by (simp add: addTriangle_vertices)
  from assms t a r show ?thesis
    by (auto simp add: createInnerTriangle_def Let_def v split: option.splits)
qed

lemma createOuterTriangle_vertices:
  assumes "createOuterTriangle s t e = (s', Some new)"
  shows "map tri_vertices (gl_triangles s') =
         map tri_vertices (gl_triangles s) @ [outerVertices (gl_triangles s ! t) e]"
proof -
  from assms have t: "t < length (gl_triangles s)"
    by (auto simp add: createOuterTriangle_def split: if_splits)
  obtain s1 r where
    a: "addTriangle s (outerVertices (gl_triangles s ! t) e) (Some t) (Some e) = (s1, r)"
    by (cases "addTriangle s (outerVertices (gl_triangles s ! t) e) (Some t) (Some e)")
  from assms t a have r: "r = Some new"
    by (auto simp add: createOuterTriangle_def Let_def split: option.splits)
  from a r have v: "map tri_vertices (gl_triangles s1) =
      map tri_vertices (gl_triangles s) @ [outerVertices (gl_triangles s ! t) e]"
    by (simp add: addTriangle_vertices)
  from assms t a r show ?thesis
    by (auto simp add: createOuterTriangle_def Let_def v split: option.splits)
qed

lemma new_vertices_nth:
  assumes "map tri_vertices (gl_triangles s') = map tri_vertices (gl_triangles s) @ [v]"
  shows "tri_vertices (gl_triangles s' ! length (gl_triangles s)) = v"
proof -
  have "length (gl_triangles s') = Suc (length (gl_triangles s))"
    using arg_cong[OF assms, of length] by simp
  then have "tri_vertices (gl_triangles s' ! length (gl_triangles s)) =
        map tri_vertices (gl_triangles s') ! length (gl_triangles s)"
    by simp
  also have "\<dots> = v" by (simp add: assms nth_append)
  finally show ?thesis .
qed

lemma app_seed_triangle:
  "tri_vertices (gl_triangles app_seed ! 0) =
     (Fin (- 3 / 20), Fin (- 1731 / 20000), Fin (3 / 20), Fin (- 1731 / 20000),
      Fin 0, Fin (693 / 4000))"
  "tri_center (gl_triangles app_seed ! 0) = (Fin 0, Fin (1 / 20000))"
  by (simp_all add: app_seed_def createInitialTriangle_def app_initial_def addTriangle_def Let_def
      MAX_TRIANGLES_def TRIANGLE_SIZE_def focusTriangle_def GLTriangle_new_def gl_update_at_def)

lemma sqrt_9_100: "sqrt (9 / 100) = 3 / 10"
  by (rule real_sqrt_unique) (simp_all add: power2_eq_square)

lemma sqrt_seed_side_lower: "2999 / 10000 < sqrt (2249901 / 25000000)"
  by (rule real_less_rsqrt) (simp add: power2_eq_square)

lemma sqrt_seed_side_upper: "sqrt (2249901 / 25000000) < 3 / 10"
  by (rule real_less_lsqrt) (simp_all add: power2_eq_square)

lemma sqrt_inner_side_upper: "sqrt (749989 / 25000000) < 2 / 10"
  by (rule real_less_lsqrt) (simp_all add: power2_eq_square)

lemma close_abs:
  fixes s :: real
  assumes "2999 / 10000 < s" "s < 3 / 10"
  shows "\<bar>3 / 10 - s\<bar> * 10000 < 1" "\<bar>s - 3 / 10\<bar> * 10000 < 1"
  using assms by (simp_all add: abs_if)

lemma far_abs:
  fixes s :: real
  assumes "s < 2 / 10"
  shows "\<not> \<bar>3 / 10 - s\<bar> * 1000 < 1"
  using assms by (simp add: abs_if)

lemma app_seed_equilateral:
  "equilateral6 (Fin (1 / 10000)) (tri_vertices (gl_triangles app_seed ! 0))"
proof -
  have "\<bar>3 / 10 - sqrt (2249901 / 25000000)\<bar> * 10000 < 1"
       "\<bar>sqrt (2249901 / 25000000) - 3 / 10\<bar> * 10000 < 1"
    using close_abs[OF sqrt_seed_side_lower sqrt_seed_side_upper] by blast+
  then show ?thesis
    by (simp add: app_seed_triangle equilateral6_def Let_def withinTol_def sqrt_9_100)
qed

lemma app_seed_inner_vertices:
  "innerVertices (gl_triangles app_seed ! 0) S0 =
     (Fin (- 3 / 20), Fin (- 1731 / 20000), Fin (3 / 20), Fin (- 1731 / 20000),
      Fin 0, Fin (1 / 20000))"
  by (simp add: innerVertices_def getSide_def app_seed_triangle Let_def)

lemma app_seed_inner_not_equilateral:
  "\<not> equilateral6 (Fin (1 / 1000)) (innerVertices (gl_triangles app_seed ! 0) S0)"
proof -
  have "\<not> \<bar>3 / 10 - sqrt (749989 / 25000000)\<bar> * 1000 < 1"
    using far_abs[OF sqrt_inner_side_upper] .
  then show ?thesis
    by (simp add: app_seed_inner_vertices equilateral6_def Let_def withinTol_def sqrt_9_100)
qed

lemma createInnerTriangle_room:
  assumes "t < length (gl_triangles s)" "triangleCount s < MAX_TRIANGLES"
  shows "snd (createInnerTriangle s t e) = Some (length (gl_triangles s))"
    and "triangleCount (fst (createInnerTriangle s t e)) = Suc (triangleCount s)"
proof -
  let ?a = "addTriangle s (innerVertices (gl_triangles s ! t) e) (Some t) (Some e)"
  have a: "snd ?a = Some (length (gl_triangles s))"
     "length (gl_triangles (fst ?a)) = Suc (length (gl_triangles s))"
     "triangleCount (fst ?a) = Suc (triangleCount s)"
    using addTriangle_room[OF assms(2)] by simp_all
  show "snd (createInnerTriangle s t e) = Some (length (gl_triangles s))"
    using assms(1) a by (simp add: createInnerTriangle_def Let_def split_def split: option.splits)
  show "triangleCount (fst (createInnerTriangle s t e)) = Suc (triangleCount s)"
    using assms(1) a by (simp add: createInnerTriangle_def Let_def split_def split: option.splits)
qed

lemma createOuterTriangle_room:
  assumes "t < length (gl_triangles s)" "triangleCount s < MAX_TRIANGLES"
  shows "snd (createOuterTriangle s t e) = Some (length (gl_triangles s))"
    and "triangleCount (fst (createOuterTriangle s t e)) = Suc (triangleCount s)"
proof -
  let ?a = "addTriangle s (outerVertices (gl_triangles s ! t) e) (Some t) (Some e)"
  have a: "snd ?a = Some (length (gl_triangles s))"
     "length (gl_triangles (fst ?a)) = Suc (length (gl_triangles s))"
     "triangleCount (fst ?a) = Suc (triangleCount s)"
    using addTriangle_room[OF assms(2)] by simp_all
  show "snd (createOuterTriangle s t e) = Some (length (gl_triangles s))"
    using assms(1) a by (simp add: createOuterTriangle_def Let_def split_def split: option.splits)
  show "triangleCount (fst (createOuterTriangle s t e)) = Suc (triangleCount s)"
    using assms(1) a by (simp add: createOuterTriangle_def Let_def split_def split: option.splits)
qed

text \<open>
  C3, as the code has it, for every tolerance \<open>eps\<close> from \<open>0.0001\<close> on (the code compares
  coordinates with \<open>0.0001\<close> and with \<open>0.001\<close>).  In the Three.js model the initial
  triangle is equilateral within \<open>eps\<close>, and the three creation methods keep every triangle
  of the store in the plane and equilateral within \<open>eps\<close> (\<open>tm_equilateral\<close>).  In the WebGL
  model the initial triangle is equilateral within \<open>eps\<close>, and a triangle returned by
  \<open>createAdjacentTriangle\<close> or \<open>createOuterTriangle\<close> is equilateral within \<open>eps\<close> when the
  chosen side can be measured (\<open>measurable_edge\<close>): its endpoints have finite coordinates of
  magnitude at most \<open>2^20\<close> and its length, as the code computes it, is not 0.  Nothing is
  stated for \<open>createInnerTriangle\<close> of the WebGL model, nor for a side whose computed
  length is 0.  Distances are taken over the exact reals: rounding is abstracted.
\<close>

theorem equilateral_invariant:
  assumes "1 / 10000 \<le> eps"
  shows "tm_equilateral (Fin eps) TriangleManager_new \<and>
    (tm_equilateral (Fin eps) m \<and>
       (TM_createAdjacentTriangle m T e = Some (m', n) \<or>
        TM_createInnerTriangle m T e = Some (m', n) \<or>
        TM_createOuterTriangle m T e = Some (m', n))
     \<longrightarrow> tm_equilateral (Fin eps) m') \<and>
    equilateral6 (Fin eps) (tri_vertices (gl_triangles app_seed ! 0)) \<and>
    (measurable_edge (gl_triangles s ! t) sd \<and>
       (createAdjacentTriangle s t sd = (s', Some new) \<or>
        createOuterTriangle s t sd = (s', Some new))
     \<longrightarrow> equilateral6 (Fin eps) (tri_vertices (gl_triangles s' ! new)))"
proof (intro conjI impI)
  from assms have pos: "0 < eps" by simp
  show "tm_equilateral (Fin eps) TriangleManager_new"
    using pos by (rule TM_new_equilateral)
  show "equilateral6 (Fin eps) (tri_vertices (gl_triangles app_seed ! 0))"
    using app_seed_equilateral assms by (rule equilateral6_mono)
  {
    assume "tm_equilateral (Fin eps) m \<and>
         (TM_createAdjacentTriangle m T e = Some (m', n) \<or>
          TM_createInnerTriangle m T e = Some (m', n) \<or>
          TM_createOuterTriangle m T e = Some (m', n))"
    then show "tm_equilateral (Fin eps) m'"
      using TM_create_preserves_equilateral[of eps m, OF _ pos] by blast
  }
  assume h: "measurable_edge (gl_triangles s ! t) sd \<and>
       (createAdjacentTriangle s t sd = (s', Some new) \<or>
        createOuterTriangle s t sd = (s', Some new))"
  then have me: "measurable_edge (gl_triangles s ! t) sd"
    by simp
  from h consider (adj) "createAdjacentTriangle s t sd = (s', Some new)"
    | (out) "createOuterTriangle s t sd = (s', Some new)" by blast
  then show "equilateral6 (Fin eps) (tri_vertices (gl_triangles s' ! new))"
  proof cases
    case adj
    from createAdjacentTriangle_Some[OF adj] have n: "new = length (gl_triangles s)" by blast
    from new_vertices_nth[OF createAdjacentTriangle_vertices[OF adj]] n
    have "tri_vertices (gl_triangles s' ! new) = adjacentVertices (gl_triangles s ! t) sd" by simp
    then show ?thesis using adjacentVertices_equilateral6[OF me pos] by simp
  next
    case out
    from createOuterTriangle_Some[OF out] have n: "new = length (gl_triangles s)" by blast
    from new_vertices_nth[OF createOuterTriangle_vertices[OF out]] n
    have "tri_vertices (gl_triangles s' ! new) = outerVertices (gl_triangles s ! t) sd" by simp
    then show ?thesis using outerVertices_equilateral6[OF me pos] by simp
  qed
qed

theorem equilateral_invariant_witness:
  "(1 / 10000 :: real) \<le> 1 / 10000 \<and>
   tm_equilateral (Fin (1 / 10000)) TriangleManager_new \<and>
   (\<exists>m'. TM_createAdjacentTriangle TriangleManager_new 0 S0 = Some (m', 1) \<and>
          tm_equilateral (Fin (1 / 10000)) m') \<and>
   equilateral6 (Fin (1 / 10000)) (tri_vertices (gl_triangles app_seed ! 0)) \<and>
   measurable_edge (gl_triangles app_seed ! 0) S0 \<and>
   equilateral6 (Fin (1 / 10000))
     (tri_vertices (gl_triangles (fst (createAdjacentTriangle app_seed 0 S0)) ! 1))"
proof -
  from TM_adjacent_seed_S0 obtain m' where
    c: "TM_createAdjacentTriangle TriangleManager_new 0 S0 = Some (m', 1)" by blast
  have me: "measurable_edge (gl_triangles app_seed ! 0) S0"
    by (simp add: measurable_edge_def getSide_def app_seed_triangle coord_bounded_def minus_jsnum_def
          js_norm2_seed)
  have a: "createAdjacentTriangle app_seed 0 S0 = (fst (createAdjacentTriangle app_seed 0 S0), Some 1)"
    using createAdjacentTriangle_room(1)[of 0 app_seed S0]
    by (simp add: prod_eq_iff app_seed_counts MAX_TRIANGLES_def)
  have e: "(1 / 10000 :: real) \<le> 1 / 10000" by simp
  from equilateral_invariant[OF e, where m = TriangleManager_new and T = 0 and e = S0 and m' = m' and n = 1
        and s = app_seed and t = 0 and sd = S0
        and s' = "fst (createAdjacentTriangle app_seed 0 S0)" and new = 1]
    c me a
  show ?thesis by blast
qed

text \<open>
  The inner triangle of the WebGL model is the side and the centre of its parent.  On side
  0 of the initial triangle its side lengths differ by more than the tolerance \<open>0.001\<close>.
\<close>

theorem inner_triangle_not_equilateral:
  "snd (createInnerTriangle app_seed 0 S0) = Some 1 \<and>
   \<not> equilateral6 (Fin (1 / 1000))
       (tri_vertices (gl_triangles (fst (createInnerTriangle app_seed 0 S0)) ! 1))"
proof -
  have r: "snd (createInnerTriangle app_seed 0 S0) = Some 1"
    using createInnerTriangle_room(1)[of 0 app_seed S0]
    by (simp add: app_seed_counts MAX_TRIANGLES_def)
  then have "createInnerTriangle app_seed 0 S0 = (fst (createInnerTriangle app_seed 0 S0), Some 1)"
    by (simp add: prod_eq_iff)
  from new_vertices_nth[OF createInnerTriangle_vertices[OF this]]
  have "tri_vertices (gl_triangles (fst (createInnerTriangle app_seed 0 S0)) ! 1) =
        innerVertices (gl_triangles app_seed ! 0) S0"
    by (simp add: app_seed_counts)
  with r app_seed_inner_not_equilateral show ?thesis by simp
qed

section \<open>The adjacent triangle of the Three.js model (C4)\<close>

text \<open>
  C4 on the initial triangle of the Three.js manager, side 0.  \<open>getAdjacentTriangleVertices\<close>
  computes the reflection \<open>(0, - sqrt 3)\<close> of the opposite vertex, but the constructor
  recomputes the third vertex, and the triangle that \<open>createAdjacentTriangle\<close> stores has
  the three vertices of the initial triangle itself, its third vertex being \<open>(0, sqrt 3 / 2)\<close>.
\<close>

theorem adjacent_of_seed_coincides_with_seed:
  "map_option (\<lambda>(m', new). vertices (triangles m' ! new))
      (TM_createAdjacentTriangle TriangleManager_new 0 S0)
     = Some (vertices (triangles TriangleManager_new ! 0)) \<and>
   vertex (vertices (triangles TriangleManager_new ! 0)) S2 = Vector3 (Fin 0) (Fin (sqrt 3 / 2)) (Fin 0) \<and>
   vertex (getAdjacentTriangleVertices (triangles TriangleManager_new ! 0) S0) S2 =
     Vector3 (Fin 0) (Fin (- sqrt 3)) (Fin 0)"
proof -
  from TM_adjacent_seed_S0 obtain m' where
    c: "TM_createAdjacentTriangle TriangleManager_new 0 S0 = Some (m', 1)" and
    v: "vertices (triangles m' ! 1) = vertices (triangles TriangleManager_new ! 0)" by blast
  have r: "vertex (getAdjacentTriangleVertices (triangles TriangleManager_new ! 0) S0) S2 =
     Vector3 (Fin 0) (Fin (- sqrt 3)) (Fin 0)"
    by (simp add: getAdjacentTriangleVertices_def TM_new_vertices Let_def)
  from c v r show ?thesis by (simp add: TM_new_vertices)
qed

section \<open>The inner triangle of the Three.js model (C8)\<close>

lemma TM_new_center: "center (triangles TriangleManager_new ! 0) = Vector3 (Fin 0) (Fin 0) (Fin 0)"
  by (simp add: TriangleManager_new_def TM_createInitialTriangle_def TM_addTriangle_def Let_def
                setFocusedTriangle_def setFocus_def update_at_def Triangle_new_def makeEquilateral_plane)

lemma seed_inner_S1:
  "getInnerTriangleVertices (triangles TriangleManager_new ! 0) S1 =
     (Vector3 (Fin (3 / 4)) (Fin (- sqrt 3 / 4)) (Fin 0), Vector3 (Fin 0) (Fin 0) (Fin 0),
      Vector3 (Fin 0) (Fin (sqrt 3 / 2)) (Fin 0))"
  by (simp add: getInnerTriangleVertices_def TM_new_vertices TM_new_center Let_def)

lemma seed_inner_S1_made:
  "makeEquilateral (Vector3 (Fin (3 / 4)) (Fin (- (sqrt 3 / 4))) (Fin 0),
                    Vector3 (Fin 0) (Fin 0) (Fin 0), w) =
     (Vector3 (Fin (3 / 4)) (Fin (- (sqrt 3 / 4))) (Fin 0), Vector3 (Fin 0) (Fin 0) (Fin 0),
      Vector3 (Fin 0) (Fin (- (sqrt 3 / 2))) (Fin 0))"
  by (simp add: makeEquilateral_plane)

text \<open>
  C8 on the initial triangle of the Three.js manager, side 1.  \<open>getInnerTriangleVertices\<close>
  returns \<open>[A, C, B]\<close> with \<open>B = (0, sqrt 3 / 2)\<close>, and the new triangle is stored in the
  inner slot of side 1; but the constructor recomputes the third vertex, and the stored
  triangle is \<open>[A, C, (0, - sqrt 3 / 2)]\<close>.
\<close>

theorem inner_of_seed_third_vertex_recomputed:
  "map_option (\<lambda>(m', new). (vertices (triangles m' ! new), innerTriangles (triangles m' ! 0) S1))
      (TM_createInnerTriangle TriangleManager_new 0 S1)
     = Some ((Vector3 (Fin (3 / 4)) (Fin (- sqrt 3 / 4)) (Fin 0), Vector3 (Fin 0) (Fin 0) (Fin 0),
              Vector3 (Fin 0) (Fin (- sqrt 3 / 2)) (Fin 0)), Some 1) \<and>
   getInnerTriangleVertices (triangles TriangleManager_new ! 0) S1 =
     (Vector3 (Fin (3 / 4)) (Fin (- sqrt 3 / 4)) (Fin 0), Vector3 (Fin 0) (Fin 0) (Fin 0),
      Vector3 (Fin 0) (Fin (sqrt 3 / 2)) (Fin 0))"
proof -
  have "0 < length (triangles TriangleManager_new)"
       "innerTriangles (triangles TriangleManager_new ! 0) S1 = None"
    by (simp_all add: TM_new_length TM_new_links)
  from TM_createInnerTriangle_fresh[OF this] obtain m' where
    "TM_createInnerTriangle TriangleManager_new 0 S1 = Some (m', 1)"
    "vertices (triangles m' ! 1) =
       makeEquilateral (getInnerTriangleVertices (triangles TriangleManager_new ! 0) S1)"
    "innerTriangles (triangles m' ! 0) S1 = Some 1"
    by (auto simp add: TM_new_length)
  then show ?thesis by (simp add: seed_inner_S1_made seed_inner_S1)
qed

section \<open>Edges of length zero (C2)\<close>

lemma adjacentVertices_degenerate:
  assumes "getSide t e = (Fin a, Fin b, Fin a, Fin b)"
  shows "adjacentVertices t e = (Fin a, Fin b, Fin a, Fin b, NaN, NaN)"
  by (rule adjacentVertices_underflow[OF assms]) simp_all

lemma outerVertices_degenerate:
  assumes "getSide t e = (Fin a, Fin b, Fin a, Fin b)"
  shows "outerVertices t e = (Fin a, Fin b, Fin a, Fin b, NaN, NaN)"
  by (rule outerVertices_underflow[OF assms]) simp_all

lemma innerVertices_degenerate:
  assumes "getSide t e = (Fin a, Fin b, Fin a, Fin b)"
  shows "innerVertices t e = (Fin a, Fin b, Fin a, Fin b, fst (tri_center t), snd (tri_center t))"
  by (simp add: innerVertices_def assms Let_def)

lemma makeEquilateral_degenerate:
  assumes "in_plane A"
  shows "makeEquilateral (A, A, w) = (A, A, A)"
proof -
  from assms obtain a b where "A = Vector3 (Fin a) (Fin b) (Fin 0)" by (rule in_planeE)
  then show ?thesis by (simp add: makeEquilateral_plane)
qed

lemma getAdjacentTriangleVertices_edge:
  "vertex (getAdjacentTriangleVertices t e) S0 = vertex (vertices t) e"
  "vertex (getAdjacentTriangleVertices t e) S1 = vertex (vertices t) (next_side e)"
  by (cases e; simp add: getAdjacentTriangleVertices_def Let_def)+

lemma getOuterTriangleVertices_edge:
  "vertex (getOuterTriangleVertices t e) S0 = vertex (vertices t) e"
  "vertex (getOuterTriangleVertices t e) S1 = vertex (vertices t) (next_side e)"
  by (simp_all add: getOuterTriangleVertices_def Let_def)

lemma makeEquilateral_degenerate':
  assumes "in_plane A" "vertex vs S0 = A" "vertex vs S1 = A"
  shows "makeEquilateral vs = (A, A, A)"
proof -
  obtain v0 v1 w where vs: "vs = (v0, v1, w)" by (cases vs)
  with assms show ?thesis by (simp add: makeEquilateral_degenerate)
qed

lemma app_create_room:
  assumes "t < length (gl_triangles s)" "triangleCount s < MAX_TRIANGLES"
  shows "\<exists>s'. createAdjacentTriangle s t e = (s', Some (length (gl_triangles s))) \<and>
              triangleCount s' = Suc (triangleCount s) \<and>
              focusedTriangleIndex s' = int (length (gl_triangles s)) \<and>
              tri_vertices (gl_triangles s' ! length (gl_triangles s)) =
                adjacentVertices (gl_triangles s ! t) e"
    and "\<exists>s'. createInnerTriangle s t e = (s', Some (length (gl_triangles s))) \<and>
              triangleCount s' = Suc (triangleCount s) \<and>
              focusedTriangleIndex s' = int (length (gl_triangles s)) \<and>
              tri_vertices (gl_triangles s' ! length (gl_triangles s)) =
                innerVertices (gl_triangles s ! t) e"
    and "\<exists>s'. createOuterTriangle s t e = (s', Some (length (gl_triangles s))) \<and>
              triangleCount s' = Suc (triangleCount s) \<and>
              focusedTriangleIndex s' = int (length (gl_triangles s)) \<and>
              tri_vertices (gl_triangles s' ! length (gl_triangles s)) =
                outerVertices (gl_triangles s ! t) e"
proof -
  let ?n = "length (gl_triangles s)"
  have a: "createAdjacentTriangle s t e = (fst (createAdjacentTriangle s t e), Some ?n)"
    using createAdjacentTriangle_room(1)[OF assms, of e] by (simp add: prod_eq_iff)
  from createAdjacentTriangle_Some[OF a] new_vertices_nth[OF createAdjacentTriangle_vertices[OF a]] a
  show "\<exists>s'. createAdjacentTriangle s t e = (s', Some ?n) \<and>
              triangleCount s' = Suc (triangleCount s) \<and>
              focusedTriangleIndex s' = int ?n \<and>
              tri_vertices (gl_triangles s' ! ?n) = adjacentVertices (gl_triangles s ! t) e"
    by auto
  have i: "createInnerTriangle s t e = (fst (createInnerTriangle s t e), Some ?n)"
    using createInnerTriangle_room(1)[OF assms, of e] by (simp add: prod_eq_iff)
  from createInnerTriangle_Some[OF i] new_vertices_nth[OF createInnerTriangle_vertices[OF i]] i
  show "\<exists>s'. createInnerTriangle s t e = (s', Some ?n) \<and>
              triangleCount s' = Suc (triangleCount s) \<and>
              focusedTriangleIndex s' = int ?n \<and>
              tri_vertices (gl_triangles s' ! ?n) = innerVertices (gl_triangles s ! t) e"
    by auto
  have o: "createOuterTriangle s t e = (fst (createOuterTriangle s t e), Some ?n)"
    using createOuterTriangle_room(1)[OF assms, of e] by (simp add: prod_eq_iff)
  from createOuterTriangle_Some[OF o] new_vertices_nth[OF createOuterTriangle_vertices[OF o]] o
  show "\<exists>s'. createOuterTriangle s t e = (s', Some ?n) \<and>
              triangleCount s' = Suc (triangleCount s) \<and>
              focusedTriangleIndex s' = int ?n \<and>
              tri_vertices (gl_triangles s' ! ?n) = outerVertices (gl_triangles s ! t) e"
    by auto
qed

lemma app_degenerate_facts:
  "length (gl_triangles app_degenerate) = 1" "triangleCount app_degenerate = 1"
  "getSide (gl_triangles app_degenerate ! 0) S0 = (Fin 0, Fin 0, Fin 0, Fin 0)"
  by (simp_all add: app_degenerate_def app_initial_def addTriangle_def Let_def MAX_TRIANGLES_def
        focusTriangle_def getSide_def)

lemma tm_degenerate_facts:
  "length (triangles tm_degenerate) = 1"
  "vertices (triangles tm_degenerate ! 0) =
     (Vector3 (Fin 0) (Fin 0) (Fin 0), Vector3 (Fin 0) (Fin 0) (Fin 0), Vector3 (Fin 0) (Fin 0) (Fin 0))"
  "neighbors (triangles tm_degenerate ! 0) = (\<lambda>_. None)"
  "outerTriangles (triangles tm_degenerate ! 0) = (\<lambda>_. None)"
  by (simp_all add: tm_degenerate_def TM_addTriangle_def makeEquilateral_plane)

text \<open>
  C2, as the code has it.  No derivation tests the length of the edge or signals an error.
  On a side whose two endpoints are the same finite point \<open>A\<close>, with room left, the WebGL
  functions register a new triangle, count it and focus it: \<open>createAdjacentTriangle\<close> and
  \<open>createOuterTriangle\<close> store \<open>[A, A, (NaN, NaN)]\<close> (the division \<open>0 / 0\<close>), and
  \<open>createInnerTriangle\<close> stores \<open>[A, A, C]\<close>.  In the Three.js manager, with the slot empty,
  \<open>createAdjacentTriangle\<close> and \<open>createOuterTriangle\<close> register and focus the triangle
  \<open>[A, A, A]\<close> (\<open>normalize()\<close> leaves the zero vector as it is, so no \<open>NaN\<close> arises there),
  and \<open>createInnerTriangle\<close> registers and focuses a triangle on \<open>A\<close> and the centre.
\<close>

theorem zero_length_edge_still_creates:
  "(t < length (gl_triangles s) \<and> triangleCount s < MAX_TRIANGLES \<and>
    getSide (gl_triangles s ! t) e = (Fin a, Fin b, Fin a, Fin b) \<longrightarrow>
      (\<exists>s'. createAdjacentTriangle s t e = (s', Some (length (gl_triangles s))) \<and>
             triangleCount s' = Suc (triangleCount s) \<and>
             focusedTriangleIndex s' = int (length (gl_triangles s)) \<and>
             tri_vertices (gl_triangles s' ! length (gl_triangles s)) =
               (Fin a, Fin b, Fin a, Fin b, NaN, NaN)) \<and>
      (\<exists>s'. createOuterTriangle s t e = (s', Some (length (gl_triangles s))) \<and>
             triangleCount s' = Suc (triangleCount s) \<and>
             focusedTriangleIndex s' = int (length (gl_triangles s)) \<and>
             tri_vertices (gl_triangles s' ! length (gl_triangles s)) =
               (Fin a, Fin b, Fin a, Fin b, NaN, NaN)) \<and>
      (\<exists>s'. createInnerTriangle s t e = (s', Some (length (gl_triangles s))) \<and>
             triangleCount s' = Suc (triangleCount s) \<and>
             focusedTriangleIndex s' = int (length (gl_triangles s)) \<and>
             tri_vertices (gl_triangles s' ! length (gl_triangles s)) =
               (Fin a, Fin b, Fin a, Fin b,
                fst (tri_center (gl_triangles s ! t)), snd (tri_center (gl_triangles s ! t))))) \<and>
   (T < length (triangles m) \<and> in_plane A \<and>
    vertex (vertices (triangles m ! T)) sd = A \<and>
    vertex (vertices (triangles m ! T)) (next_side sd) = A \<longrightarrow>
      (neighbors (triangles m ! T) sd = None \<longrightarrow>
        (\<exists>m'. TM_createAdjacentTriangle m T sd = Some (m', length (triangles m)) \<and>
               length (triangles m') = Suc (length (triangles m)) \<and>
               focusedTriangle m' = Some (length (triangles m)) \<and>
               vertices (triangles m' ! length (triangles m)) = (A, A, A))) \<and>
      (outerTriangles (triangles m ! T) sd = None \<longrightarrow>
        (\<exists>m'. TM_createOuterTriangle m T sd = Some (m', length (triangles m)) \<and>
               length (triangles m') = Suc (length (triangles m)) \<and>
               focusedTriangle m' = Some (length (triangles m)) \<and>
               vertices (triangles m' ! length (triangles m)) = (A, A, A))) \<and>
      (innerTriangles (triangles m ! T) sd = None \<longrightarrow>
        (\<exists>m'. TM_createInnerTriangle m T sd = Some (m', length (triangles m)) \<and>
               length (triangles m') = Suc (length (triangles m)) \<and>
               focusedTriangle m' = Some (length (triangles m)) \<and>
               vertex (vertices (triangles m' ! length (triangles m))) S0 = A \<and>
               vertex (vertices (triangles m' ! length (triangles m))) S1 =
                 center (triangles m ! T))))"
proof (intro conjI impI)
  assume h: "t < length (gl_triangles s) \<and> triangleCount s < MAX_TRIANGLES \<and>
    getSide (gl_triangles s ! t) e = (Fin a, Fin b, Fin a, Fin b)"
  then have t: "t < length (gl_triangles s)" and r: "triangleCount s < MAX_TRIANGLES"
    and g: "getSide (gl_triangles s ! t) e = (Fin a, Fin b, Fin a, Fin b)" by simp_all
  show "\<exists>s'. createAdjacentTriangle s t e = (s', Some (length (gl_triangles s))) \<and>
             triangleCount s' = Suc (triangleCount s) \<and>
             focusedTriangleIndex s' = int (length (gl_triangles s)) \<and>
             tri_vertices (gl_triangles s' ! length (gl_triangles s)) =
               (Fin a, Fin b, Fin a, Fin b, NaN, NaN)"
    using app_create_room(1)[OF t r, of e] by (simp add: adjacentVertices_degenerate[OF g])
  show "\<exists>s'. createOuterTriangle s t e = (s', Some (length (gl_triangles s))) \<and>
             triangleCount s' = Suc (triangleCount s) \<and>
             focusedTriangleIndex s' = int (length (gl_triangles s)) \<and>
             tri_vertices (gl_triangles s' ! length (gl_triangles s)) =
               (Fin a, Fin b, Fin a, Fin b, NaN, NaN)"
    using app_create_room(3)[OF t r, of e] by (simp add: outerVertices_degenerate[OF g])
  show "\<exists>s'. createInnerTriangle s t e = (s', Some (length (gl_triangles s))) \<and>
             triangleCount s' = Suc (triangleCount s) \<and>
             focusedTriangleIndex s' = int (length (gl_triangles s)) \<and>
             tri_vertices (gl_triangles s' ! length (gl_triangles s)) =
               (Fin a, Fin b, Fin a, Fin b,
                fst (tri_center (gl_triangles s ! t)), snd (tri_center (gl_triangles s ! t)))"
    using app_create_room(2)[OF t r, of e] by (simp add: innerVertices_degenerate[OF g])
next
  assume h: "T < length (triangles m) \<and> in_plane A \<and>
    vertex (vertices (triangles m ! T)) sd = A \<and>
    vertex (vertices (triangles m ! T)) (next_side sd) = A"
    and n: "neighbors (triangles m ! T) sd = None"
  then have T: "T < length (triangles m)" and A: "in_plane A"
    and v: "vertex (vertices (triangles m ! T)) sd = A"
           "vertex (vertices (triangles m ! T)) (next_side sd) = A" by simp_all
  have "makeEquilateral (getAdjacentTriangleVertices (triangles m ! T) sd) = (A, A, A)"
    using A v by (intro makeEquilateral_degenerate') (simp_all add: getAdjacentTriangleVertices_edge)
  then have "vertices (triangles (setFocusedTriangle (adj_linked m T sd) (Some (length (triangles m))))
                ! length (triangles m)) = (A, A, A)"
    by (simp add: setFocusedTriangle_vertices adj_linked_vertices_new)
  then show "\<exists>m'. TM_createAdjacentTriangle m T sd = Some (m', length (triangles m)) \<and>
               length (triangles m') = Suc (length (triangles m)) \<and>
               focusedTriangle m' = Some (length (triangles m)) \<and>
               vertices (triangles m' ! length (triangles m)) = (A, A, A)"
    by (simp add: TM_createAdjacentTriangle_fresh[OF T n])
next
  assume h: "T < length (triangles m) \<and> in_plane A \<and>
    vertex (vertices (triangles m ! T)) sd = A \<and>
    vertex (vertices (triangles m ! T)) (next_side sd) = A"
    and n: "outerTriangles (triangles m ! T) sd = None"
  then have T: "T < length (triangles m)" and A: "in_plane A"
    and v: "vertex (vertices (triangles m ! T)) sd = A"
           "vertex (vertices (triangles m ! T)) (next_side sd) = A" by simp_all
  have "makeEquilateral (getOuterTriangleVertices (triangles m ! T) sd) = (A, A, A)"
    using A v by (intro makeEquilateral_degenerate') (simp_all add: getOuterTriangleVertices_edge)
  with TM_createOuterTriangle_fresh[OF T n]
  show "\<exists>m'. TM_createOuterTriangle m T sd = Some (m', length (triangles m)) \<and>
               length (triangles m') = Suc (length (triangles m)) \<and>
               focusedTriangle m' = Some (length (triangles m)) \<and>
               vertices (triangles m' ! length (triangles m)) = (A, A, A)"
    by auto
next
  assume h: "T < length (triangles m) \<and> in_plane A \<and>
    vertex (vertices (triangles m ! T)) sd = A \<and>
    vertex (vertices (triangles m ! T)) (next_side sd) = A"
    and n: "innerTriangles (triangles m ! T) sd = None"
  then have T: "T < length (triangles m)"
    and v: "vertex (vertices (triangles m ! T)) sd = A" by simp_all
  have "vertex (makeEquilateral (getInnerTriangleVertices (triangles m ! T) sd)) S0 = A"
       "vertex (makeEquilateral (getInnerTriangleVertices (triangles m ! T) sd)) S1 =
          center (triangles m ! T)"
    using v by (simp_all add: makeEquilateral_def getInnerTriangleVertices_def Let_def)
  with TM_createInnerTriangle_fresh[OF T n]
  show "\<exists>m'. TM_createInnerTriangle m T sd = Some (m', length (triangles m)) \<and>
               length (triangles m') = Suc (length (triangles m)) \<and>
               focusedTriangle m' = Some (length (triangles m)) \<and>
               vertex (vertices (triangles m' ! length (triangles m))) S0 = A \<and>
               vertex (vertices (triangles m' ! length (triangles m))) S1 =
                 center (triangles m ! T)"
    by auto
qed

theorem zero_length_edge_still_creates_witness:
  "(\<exists>s'. createAdjacentTriangle app_degenerate 0 S0 = (s', Some 1) \<and> triangleCount s' = 2 \<and>
          tri_vertices (gl_triangles s' ! 1) = (Fin 0, Fin 0, Fin 0, Fin 0, NaN, NaN)) \<and>
   (\<exists>m'. TM_createAdjacentTriangle tm_degenerate 0 S0 = Some (m', 1) \<and>
          length (triangles m') = 2 \<and>
          vertices (triangles m' ! 1) =
            (Vector3 (Fin 0) (Fin 0) (Fin 0), Vector3 (Fin 0) (Fin 0) (Fin 0),
             Vector3 (Fin 0) (Fin 0) (Fin 0)))"
proof -
  have h1: "0 < length (gl_triangles app_degenerate) \<and> triangleCount app_degenerate < MAX_TRIANGLES \<and>
    getSide (gl_triangles app_degenerate ! 0) S0 = (Fin 0, Fin 0, Fin 0, Fin 0)"
    by (simp add: app_degenerate_facts MAX_TRIANGLES_def)
  have h2: "0 < length (triangles tm_degenerate) \<and> in_plane (Vector3 (Fin 0) (Fin 0) (Fin 0)) \<and>
    vertex (vertices (triangles tm_degenerate ! 0)) S0 = Vector3 (Fin 0) (Fin 0) (Fin 0) \<and>
    vertex (vertices (triangles tm_degenerate ! 0)) (next_side S0) = Vector3 (Fin 0) (Fin 0) (Fin 0)"
    by (simp add: tm_degenerate_facts)
  have h3: "neighbors (triangles tm_degenerate ! 0) S0 = None"
    by (simp add: tm_degenerate_facts)
  from zero_length_edge_still_creates[where s = app_degenerate and t = 0 and e = S0 and a = 0 and b = 0
        and m = tm_degenerate and T = 0 and sd = S0 and A = "Vector3 (Fin 0) (Fin 0) (Fin 0)"]
    h1 h2 h3
  show ?thesis by (auto simp add: app_degenerate_facts tm_degenerate_facts numeral_2_eq_2)
qed

text \<open>
  A state of the WebGL model whose triangle 0 has a side 0 of length zero:
  \<open>createAdjacentTriangle\<close> returns a new triangle, the count goes from 1 to 2, and the third
  vertex of the new triangle is \<open>(NaN, NaN)\<close>.
\<close>

theorem zero_length_edge_counterexample:
  "zero_length_edge (gl_triangles app_degenerate ! 0) S0 \<and>
   triangleCount app_degenerate = 1 \<and>
   snd (createAdjacentTriangle app_degenerate 0 S0) = Some 1 \<and>
   triangleCount (fst (createAdjacentTriangle app_degenerate 0 S0)) = 2 \<and>
   tri_vertices (gl_triangles (fst (createAdjacentTriangle app_degenerate 0 S0)) ! 1) =
     (Fin 0, Fin 0, Fin 0, Fin 0, NaN, NaN)"
proof -
  have t: "0 < length (gl_triangles app_degenerate)"
    and r: "triangleCount app_degenerate < MAX_TRIANGLES"
    by (simp_all add: app_degenerate_facts MAX_TRIANGLES_def)
  from app_create_room(1)[OF t r, of S0] show ?thesis
    by (auto simp add: app_degenerate_facts zero_length_edge_def
          adjacentVertices_degenerate[OF app_degenerate_facts(3)])
qed

end
